theory Spec2Isabelle
  imports Complex_Main "HOL-Library.Sublist"
begin

section \<open>Strings\<close>

text \<open>
  Python strings are modelled as \<open>string\<close>: a character below 128 is the ASCII character
  of that code, a character from 128 on stands for a character outside ASCII. The
  substring test \<^verbatim>\<open>a in b\<close> is \<^const>\<open>sublist\<close>, \<^verbatim>\<open>b.startswith(a)\<close> is \<^const>\<open>prefix\<close>.

  \<^verbatim>\<open>str.upper\<close> works character by character. On ASCII it turns the letters a to z into
  capitals; outside ASCII it follows the Unicode tables, which send some characters to
  strings of ASCII capitals (U+00DF to \<^verbatim>\<open>SS\<close>), so the upper case of the characters
  outside ASCII is a parameter \<open>upper_other\<close> of \<open>str_upper\<close>.

  \<^verbatim>\<open>str.lower\<close> is needed only before the substring tests of the analyzer and the
  comparison of header names; \<open>str_lower\<close> lowers the ASCII letters and keeps every other
  character.
\<close>

definition ascii_lowercase :: string where
  "ascii_lowercase = ''abcdefghijklmnopqrstuvwxyz''"

definition ascii_uppercase :: string where
  "ascii_uppercase = ''ABCDEFGHIJKLMNOPQRSTUVWXYZ''"

definition digits :: string where
  "digits = ''0123456789''"

definition upper_char :: "char \<Rightarrow> char" where
  "upper_char c =
     (case map_of (zip ascii_lowercase ascii_uppercase) c of Some u \<Rightarrow> u | None \<Rightarrow> c)"

definition lower_char :: "char \<Rightarrow> char" where
  "lower_char c =
     (case map_of (zip ascii_uppercase ascii_lowercase) c of Some l \<Rightarrow> l | None \<Rightarrow> c)"

definition is_ascii :: "char \<Rightarrow> bool" where
  "is_ascii c = (\<not> digit7 c)"

definition str_upper :: "(char \<Rightarrow> string) \<Rightarrow> string \<Rightarrow> string" where
  "str_upper upper_other s =
     concat (map (\<lambda>c. if is_ascii c then [upper_char c] else upper_other c) s)"

definition str_lower :: "string \<Rightarrow> string" where
  "str_lower s = map lower_char s"

section \<open>helpers.py: \<open>extract_postcode\<close>\<close>

text \<open>
  The regular expression of \<^verbatim>\<open>extract_postcode\<close> is a sequence of character classes, each
  with a greedy bounded repetition: an item \<open>(cls, lo, hi)\<close> stands for \<^verbatim>\<open>[cls]{lo,hi}\<close>.
  \<^verbatim>\<open>re.search\<close> is the backtracking matcher: at the leftmost start position that admits a
  match, every item first takes as many characters as it can and gives them back one by
  one when the rest of the pattern fails.
\<close>

type_synonym item = "string \<times> nat \<times> nat"

fun count_leading :: "string \<Rightarrow> string \<Rightarrow> nat" where
  "count_leading cls [] = 0"
| "count_leading cls (c # s) = (if c \<in> set cls then Suc (count_leading cls s) else 0)"

fun try_counts :: "(string \<Rightarrow> string option) \<Rightarrow> nat \<Rightarrow> nat \<Rightarrow> string \<Rightarrow> string option" where
  "try_counts k lo 0 s = (if lo = 0 then k s else None)"
| "try_counts k lo (Suc n) s =
     (if Suc n < lo then None
      else case k (drop (Suc n) s) of
             Some m \<Rightarrow> Some (take (Suc n) s @ m)
           | None \<Rightarrow> try_counts k lo n s)"

fun match_here :: "item list \<Rightarrow> string \<Rightarrow> string option" where
  "match_here [] s = Some []"
| "match_here ((cls, lo, hi) # items) s =
     try_counts (match_here items) lo (min hi (count_leading cls s)) s"

fun re_search :: "item list \<Rightarrow> string \<Rightarrow> string option" where
  "re_search items [] = match_here items []"
| "re_search items (c # s) =
     (case match_here items (c # s) of
        Some m \<Rightarrow> Some m
      | None \<Rightarrow> re_search items s)"

text \<open>\<^verbatim>\<open>[A-Z]{1,2}[0-9][A-Z0-9]? ?[0-9][A-Z]{2}\<close>\<close>

definition uk_postcode :: "item list" where
  "uk_postcode =
     [(ascii_uppercase, 1, 2), (digits, 1, 1), (ascii_uppercase @ digits, 0, 1),
      ('' '', 0, 1), (digits, 1, 1), (ascii_uppercase, 2, 2)]"

definition extract_postcode :: "(char \<Rightarrow> string) \<Rightarrow> string \<Rightarrow> string option" where
  "extract_postcode upper_other text =
     (if text = [] then None
      else case re_search uk_postcode (str_upper upper_other text) of
             Some postcode \<Rightarrow>
               Some (if CHR '' '' \<notin> set postcode
                     then (let inward = drop (length postcode - 3) postcode;
                               outward = take (length postcode - 3) postcode
                           in outward @ '' '' @ inward)
                     else postcode)
           | None \<Rightarrow> None)"

text \<open>
  The language of a pattern, stated without any matching order: a word belongs to it when
  it splits into one block per item, of an admissible length and within the item's class.
  A text contains the pattern when one of its contiguous pieces is in the language.
\<close>

fun in_lang :: "item list \<Rightarrow> string \<Rightarrow> bool" where
  "in_lang [] m = (m = [])"
| "in_lang ((cls, lo, hi) # items) m =
     list_ex (\<lambda>k. k \<le> length m \<and> list_all (\<lambda>c. c \<in> set cls) (take k m)
                  \<and> in_lang items (drop k m)) [lo..<Suc hi]"

definition contains_pattern :: "item list \<Rightarrow> string \<Rightarrow> bool" where
  "contains_pattern items s =
     list_ex (\<lambda>i. list_ex (\<lambda>n. in_lang items (take n (drop i s))) [0..<Suc (length s - i)])
       [0..<Suc (length s)]"

section \<open>Python values and exceptions\<close>

text \<open>
  Every exception of the model is an instance of Python's \<^verbatim>\<open>Exception\<close>, of one of the
  classes below; \<^verbatim>\<open>RequestException\<close> stands for \<^verbatim>\<open>requests.RequestException\<close> and its
  subclasses, \<^verbatim>\<open>TimeoutExpired\<close> for \<^verbatim>\<open>subprocess.TimeoutExpired\<close>. The string is \<^verbatim>\<open>str(e)\<close>.
\<close>

datatype exn_class =
  RequestException | TimeoutExpired | KeyError | TypeError | AttributeError
  | ValueError | OverflowError | OSError | OtherException

datatype exn = Exn exn_class string

fun exn_class_of :: "exn \<Rightarrow> exn_class" where
  "exn_class_of (Exn c msg) = c"

fun exn_str :: "exn \<Rightarrow> string" where
  "exn_str (Exn c msg) = msg"

text \<open>
  A Python float is an IEEE double: the real number it denotes, or an infinity
  (\<open>Infinity True\<close> is the positive one) or a NaN, which \<^verbatim>\<open>json.load\<close> accepts.
\<close>

datatype pyfloat = Finite real | Infinity bool | NaN

text \<open>
  Rounding to the nearest double, a tie going to the even significand. A double has 53
  significant bits: in the binade from \<open>2 ^ e\<close> up, the doubles are the multiples of
  \<open>2 ^ (e - 52)\<close>; below \<open>2 ^ - 1022\<close> they are the multiples of \<open>2 ^ - 1074\<close>; a result
  of magnitude \<open>2 ^ 1024\<close> or more is an infinity.
\<close>

definition pow2 :: "int \<Rightarrow> real" where
  "pow2 k = (if 0 \<le> k then 2 ^ nat k else 1 / 2 ^ nat (- k))"

definition round_half_even :: "real \<Rightarrow> int" where
  "round_half_even x =
     (let f = \<lfloor>x\<rfloor>; d = x - of_int f
      in if d < 1 / 2 then f
         else if 1 / 2 < d then f + 1
         else if even f then f else f + 1)"

definition round_to_double :: "real \<Rightarrow> pyfloat" where
  "round_to_double x =
     (if x = 0 then Finite 0
      else (let e = max \<lfloor>log 2 \<bar>x\<bar>\<rfloor> (- 1022);
                q = pow2 (e - 52);
                y = q * of_int (round_half_even (x / q))
            in if 2 ^ 1024 \<le> \<bar>y\<bar> then Infinity (0 < x) else Finite y))"

text \<open>The float of a decimal literal, and the product \<^verbatim>\<open>f * 100\<close> of a float: the exact
  value, rounded.\<close>

definition float_of_literal :: "real \<Rightarrow> pyfloat" where
  "float_of_literal x = round_to_double x"

fun float_times_100 :: "pyfloat \<Rightarrow> pyfloat" where
  "float_times_100 (Finite x) = round_to_double (x * 100)"
| "float_times_100 (Infinity b) = Infinity b"
| "float_times_100 NaN = NaN"

text \<open>
  A decoded JSON document, as \<^verbatim>\<open>json.load\<close> returns it. A dictionary is an association
  list read with \<^const>\<open>map_of\<close>.
\<close>

datatype json =
  JNull | JBool bool | JInt int | JFloat pyfloat | JStr string
  | JList "json list" | JDict "(string \<times> json) list"

record response =
  status_code :: int
  resp_url :: string
  resp_text :: string
  content_length :: nat
  headers :: "string list"

text \<open>
  The state of the temporary output file: \<open>None\<close> when it does not exist, otherwise its
  contents.
\<close>

type_synonym tmpfile = "string option"

section \<open>The world outside the analyzer\<close>

text \<open>
  The collaborators of the analyzer, one field per call site, so that two fetches of the
  same URL may answer differently. A network call returns a response or raises.
  \<open>mkstemp_error\<close> is the exception, if any, of \<^verbatim>\<open>tempfile.mkstemp\<close>, which then has created no
  file; \<open>close_error\<close> is the exception, if any, of the \<^verbatim>\<open>os.close\<close> that follows it.
  \<open>chrome_found\<close> tells whether \<^verbatim>\<open>os.path.exists\<close> holds of one of the browser paths;
  \<open>mkdtemp_error\<close> and \<open>popen_error\<close> are the exceptions of \<^verbatim>\<open>tempfile.mkdtemp\<close> and of
  \<^verbatim>\<open>subprocess.Popen\<close>. A run of the auditor, through \<^verbatim>\<open>npx\<close> or standalone, may raise (a
  timeout, a missing binary) and leaves the output file in some state. \<open>load_json\<close> opens
  and parses the output; \<open>unlink_error\<close> is the exception, if any, of \<^verbatim>\<open>os.unlink\<close>;
  \<open>print_error\<close> is the exception, if any, of each \<^verbatim>\<open>print\<close> of \<^verbatim>\<open>_run_lighthouse\<close>. The last
  three fields are the Python runtime: \<^verbatim>\<open>int\<close> of a string, \<^verbatim>\<open>str\<close> of a value that is
  neither a string nor \<^verbatim>\<open>None\<close>, and the text of the interpreter's own errors.
\<close>

datatype print_site =
  UsingChrome | ChromeFailed | FallingBack | NoOutput | TimedOut | RunFailed

record world =
  requests_head :: "string \<Rightarrow> exn + int"
  requests_get_probe :: "string \<Rightarrow> exn + response"
  requests_get_fallback :: "string \<Rightarrow> exn + response"
  urlparse_netloc :: "string \<Rightarrow> exn + string"
  mkstemp_error :: "exn option"
  close_error :: "exn option"
  chrome_found :: bool
  mkdtemp_error :: "exn option"
  popen_error :: "exn option"
  run_npx_lighthouse :: "string \<Rightarrow> tmpfile \<Rightarrow> exn option \<times> tmpfile"
  run_standalone_lighthouse :: "string \<Rightarrow> tmpfile \<Rightarrow> exn option \<times> tmpfile"
  load_json :: "string \<Rightarrow> exn + json"
  unlink_error :: "exn option"
  print_error :: "print_site \<Rightarrow> exn option"
  int_of_str :: "string \<Rightarrow> exn + int"
  py_repr :: "json \<Rightarrow> string"
  error_text :: "exn_class \<Rightarrow> json \<Rightarrow> string"

definition raise :: "world \<Rightarrow> exn_class \<Rightarrow> json \<Rightarrow> exn + 'a" where
  "raise w c v = Inl (Exn c (error_text w c v))"

definition and_then :: "exn + 'a \<Rightarrow> ('a \<Rightarrow> exn + 'b) \<Rightarrow> exn + 'b" where
  "and_then m f = (case m of Inl e \<Rightarrow> Inl e | Inr x \<Rightarrow> f x)"

subsection \<open>Operations of Python on decoded JSON\<close>

fun truthy :: "json \<Rightarrow> bool" where
  "truthy JNull = False"
| "truthy (JBool b) = b"
| "truthy (JInt n) = (n \<noteq> 0)"
| "truthy (JFloat (Finite x)) = (x \<noteq> 0)"
| "truthy (JFloat f) = True"
| "truthy (JStr s) = (s \<noteq> [])"
| "truthy (JList xs) = (xs \<noteq> [])"
| "truthy (JDict d) = (d \<noteq> [])"

text \<open>\<^verbatim>\<open>v.get(key, default)\<close>: only a dictionary has the method.\<close>

fun py_get :: "world \<Rightarrow> json \<Rightarrow> string \<Rightarrow> json \<Rightarrow> exn + json" where
  "py_get w (JDict d) key dflt = Inr (case map_of d key of Some x \<Rightarrow> x | None \<Rightarrow> dflt)"
| "py_get w v key dflt = raise w AttributeError v"

text \<open>\<^verbatim>\<open>key in v\<close> for a string key: a key of a dictionary, an element of a list, a
  substring of a string; any other value is not iterable.\<close>

fun py_in :: "world \<Rightarrow> string \<Rightarrow> json \<Rightarrow> exn + bool" where
  "py_in w key (JDict d) = Inr (map_of d key \<noteq> None)"
| "py_in w key (JList xs) = Inr (JStr key \<in> set xs)"
| "py_in w key (JStr s) = Inr (sublist key s)"
| "py_in w key v = raise w TypeError v"

text \<open>\<^verbatim>\<open>v[key]\<close> for a string key.\<close>

fun py_getitem :: "world \<Rightarrow> json \<Rightarrow> string \<Rightarrow> exn + json" where
  "py_getitem w (JDict d) key =
     (case map_of d key of
        Some x \<Rightarrow> Inr x
      | None \<Rightarrow> Inl (Exn KeyError ([CHR 0x27] @ key @ [CHR 0x27])))"
| "py_getitem w v key = raise w TypeError v"

text \<open>\<^verbatim>\<open>v * 100\<close>.\<close>

fun py_times_100 :: "world \<Rightarrow> json \<Rightarrow> exn + json" where
  "py_times_100 w (JInt n) = Inr (JInt (n * 100))"
| "py_times_100 w (JBool b) = Inr (JInt (if b then 100 else 0))"
| "py_times_100 w (JFloat f) = Inr (JFloat (float_times_100 f))"
| "py_times_100 w (JStr s) = Inr (JStr (concat (replicate 100 s)))"
| "py_times_100 w (JList xs) = Inr (JList (concat (replicate 100 xs)))"
| "py_times_100 w v = raise w TypeError v"

text \<open>\<^verbatim>\<open>int(v)\<close>: a float is truncated toward zero.\<close>

definition py_trunc :: "real \<Rightarrow> int" where
  "py_trunc x = (if 0 \<le> x then \<lfloor>x\<rfloor> else \<lceil>x\<rceil>)"

fun py_int :: "world \<Rightarrow> json \<Rightarrow> exn + int" where
  "py_int w (JInt n) = Inr n"
| "py_int w (JBool b) = Inr (if b then 1 else 0)"
| "py_int w (JFloat (Finite x)) = Inr (py_trunc x)"
| "py_int w (JFloat (Infinity b)) = raise w OverflowError (JFloat (Infinity b))"
| "py_int w (JFloat NaN) = raise w ValueError (JFloat NaN)"
| "py_int w (JStr s) = int_of_str w s"
| "py_int w v = raise w TypeError v"

text \<open>\<^verbatim>\<open>v < 0.5\<close>: exact on numbers, an error on anything else.\<close>

fun py_lt_half :: "world \<Rightarrow> json \<Rightarrow> exn + bool" where
  "py_lt_half w (JInt n) = Inr (real_of_int n < 1 / 2)"
| "py_lt_half w (JBool b) = Inr (\<not> b)"
| "py_lt_half w (JFloat (Finite x)) = Inr (x < 1 / 2)"
| "py_lt_half w (JFloat (Infinity b)) = Inr (\<not> b)"
| "py_lt_half w (JFloat NaN) = Inr False"
| "py_lt_half w v = raise w TypeError v"

text \<open>Decimal digits of an integer, as \<^verbatim>\<open>str\<close> prints them.\<close>

fun str_nat :: "nat \<Rightarrow> string" where
  "str_nat n =
     (if n < 10 then [digits ! n] else str_nat (n div 10) @ [digits ! (n mod 10)])"

definition str_int :: "int \<Rightarrow> string" where
  "str_int i = (if i < 0 then ''-'' @ str_nat (nat (- i)) else str_nat (nat i))"

text \<open>\<^verbatim>\<open>str(v)\<close>, as an f-string interpolates it.\<close>

fun py_str :: "world \<Rightarrow> json \<Rightarrow> string" where
  "py_str w (JStr s) = s"
| "py_str w JNull = ''None''"
| "py_str w (JBool b) = (if b then ''True'' else ''False'')"
| "py_str w (JInt n) = str_int n"
| "py_str w v = py_repr w v"

text \<open>\<^verbatim>\<open>sep.join(xs)\<close>.\<close>

fun join :: "string \<Rightarrow> string list \<Rightarrow> string" where
  "join sep [] = []"
| "join sep [x] = x"
| "join sep (x # y # ys) = x @ sep @ join sep (y # ys)"

section \<open>analyzer.py: the result record\<close>

text \<open>
  The dictionary \<^verbatim>\<open>results\<close>. The key \<^verbatim>\<open>priority\<close> is absent from the initial dictionary
  and is added by the last statement of \<^verbatim>\<open>analyze_website\<close>: \<open>None\<close> is the absent key.
\<close>

record results =
  performance_score :: int
  seo_score :: int
  accessibility_score :: int
  best_practices_score :: int
  has_ssl :: bool
  has_mobile_viewport :: bool
  issues :: "string list"
  priority :: "int option"

definition initial_results :: results where
  "initial_results =
     \<lparr>performance_score = 0, seo_score = 0, accessibility_score = 0,
      best_practices_score = 0, has_ssl = False, has_mobile_viewport = False,
      issues = [], priority = None\<rparr>"

text \<open>\<^verbatim>\<open>results['issues'].append(s)\<close>\<close>

definition append_issue :: "string \<Rightarrow> results \<Rightarrow> results" where
  "append_issue s results = results\<lparr>issues := issues results @ [s]\<rparr>"

record analyzer =
  use_lighthouse :: bool
  lighthouse_available :: bool

section \<open>analyzer.py: \<open>_check_website_basics\<close>\<close>

text \<open>
  \<^verbatim>\<open>f"{page_size_kb:.1f}"\<close> for \<^verbatim>\<open>page_size_kb = n / 1024\<close>: the quotient is exact in binary, and
  the format rounds it to tenths, a tie to the even tenth.
\<close>

definition format_kb :: "nat \<Rightarrow> string" where
  "format_kb n =
     (let q = (n * 10) div 1024; r = (n * 10) mod 1024;
          t = (if 512 < r \<or> (r = 512 \<and> odd q) then q + 1 else q)
      in str_nat (t div 10) @ ''.'' @ str_nat (t mod 10))"

text \<open>The two \<^verbatim>\<open>except\<close> clauses of \<^verbatim>\<open>_check_website_basics\<close>.\<close>

definition basics_except :: "exn \<Rightarrow> results \<Rightarrow> results" where
  "basics_except e results =
     (if exn_class_of e = RequestException
      then append_issue (''Error accessing website: '' @ exn_str e) results
      else append_issue (''Error during basic analysis: '' @ exn_str e) results)"

text \<open>The probe of the HTTPS variant, with its own \<^verbatim>\<open>try\<close> and bare \<^verbatim>\<open>except: pass\<close>.\<close>

definition check_ssl :: "world \<Rightarrow> string \<Rightarrow> results \<Rightarrow> results" where
  "check_ssl w url results0 =
     (let results = results0\<lparr>has_ssl := prefix ''https://'' url\<rparr>
      in if \<not> has_ssl results
         then (let results = append_issue ''Website does not use SSL (https)'' results;
                   https_url = (if prefix ''http://'' url then ''https://'' @ drop 7 url
                                else ''https://'' @ url)
               in case requests_head w https_url of
                    Inr status \<Rightarrow>
                      if status < 400
                      then append_issue ''HTTPS is available but not used by default'' results
                      else results
                  | Inl e \<Rightarrow> results)
         else results)"

text \<open>The checks on the fetched page, after the status test.\<close>

definition check_page :: "world \<Rightarrow> string \<Rightarrow> response \<Rightarrow> results \<Rightarrow> results" where
  "check_page w url resp results =
     (case urlparse_netloc w (resp_url resp) of
        Inl e \<Rightarrow> basics_except e results
      | Inr netloc_resp \<Rightarrow>
     (case urlparse_netloc w url of
        Inl e \<Rightarrow> basics_except e results
      | Inr netloc_url \<Rightarrow>
          (let results = (if netloc_resp \<noteq> netloc_url
                          then append_issue (''Website redirects to '' @ resp_url resp) results
                          else results);
               results = (if sublist ''viewport'' (str_lower (resp_text resp))
                          then results\<lparr>has_mobile_viewport := True\<rparr>
                          else append_issue ''No mobile viewport meta tag found'' results)
           in if 5000 * 1024 < content_length resp
              then append_issue (''Page size is large ('' @ format_kb (content_length resp)
                                   @ '' KB)'') results
              else results)))"

definition check_website_basics :: "world \<Rightarrow> string \<Rightarrow> results \<Rightarrow> results" where
  "check_website_basics w url results0 =
     (let results = check_ssl w url results0
      in case requests_get_probe w url of
           Inl e \<Rightarrow> basics_except e results
         | Inr resp \<Rightarrow>
             if 400 \<le> status_code resp
             then append_issue (''Website returns HTTP status '' @ str_int (status_code resp))
                    results
             else check_page w url resp results)"

section \<open>analyzer.py: \<open>_run_lighthouse\<close>\<close>

text \<open>
  The body of the \<^verbatim>\<open>try\<close> statement returns the parsed output or raises, and leaves the
  temporary file in some state. Each \<^verbatim>\<open>print\<close> may raise like any other call.

  The branch \<^verbatim>\<open>if chrome_found\<close>: the first \<^verbatim>\<open>print\<close> and the \<^verbatim>\<open>tempfile.mkdtemp\<close> of the
  command list are outside the inner \<^verbatim>\<open>try\<close>, so their exceptions leave the body. An
  exception of \<^verbatim>\<open>Popen\<close> or of the \<^verbatim>\<open>npx\<close> run is caught by the inner handler, which
  prints; the file keeps what the run wrote.
\<close>

definition chrome_attempt :: "world \<Rightarrow> string \<Rightarrow> tmpfile \<Rightarrow> exn option \<times> tmpfile" where
  "chrome_attempt w url f =
     (case print_error w UsingChrome of
        Some e \<Rightarrow> (Some e, f)
      | None \<Rightarrow>
     (case mkdtemp_error w of
        Some e \<Rightarrow> (Some e, f)
      | None \<Rightarrow>
     (case popen_error w of
        Some e \<Rightarrow> (print_error w ChromeFailed, f)
      | None \<Rightarrow>
          (case run_npx_lighthouse w url f of
             (Some e, f') \<Rightarrow> (print_error w ChromeFailed, f')
           | (None, f') \<Rightarrow> (None, f')))))"

text \<open>\<^verbatim>\<open>os.path.exists(output_path) and os.path.getsize(output_path) > 0\<close>\<close>

definition output_ready :: "tmpfile \<Rightarrow> bool" where
  "output_ready f = (case f of None \<Rightarrow> False | Some content \<Rightarrow> 0 < length content)"

text \<open>The standalone run, made when the output is not ready, and the reading of the
  output.\<close>

definition standalone_attempt :: "world \<Rightarrow> string \<Rightarrow> tmpfile \<Rightarrow> exn option \<times> tmpfile" where
  "standalone_attempt w url f =
     (case print_error w FallingBack of
        Some e \<Rightarrow> (Some e, f)
      | None \<Rightarrow> run_standalone_lighthouse w url f)"

definition read_output :: "world \<Rightarrow> tmpfile \<Rightarrow> exn + json" where
  "read_output w f =
     (case f of
        Some content \<Rightarrow>
          if 0 < length content then load_json w content
          else (case print_error w NoOutput of Some e \<Rightarrow> Inl e | None \<Rightarrow> Inr JNull)
      | None \<Rightarrow> (case print_error w NoOutput of Some e \<Rightarrow> Inl e | None \<Rightarrow> Inr JNull))"

definition lighthouse_try :: "world \<Rightarrow> string \<Rightarrow> tmpfile \<Rightarrow> (exn + json) \<times> tmpfile" where
  "lighthouse_try w url f0 =
     (case (if chrome_found w then chrome_attempt w url f0 else (None, f0)) of
        (Some e, f1) \<Rightarrow> (Inl e, f1)
      | (None, f1) \<Rightarrow>
          (case (if \<not> output_ready f1 then standalone_attempt w url f1 else (None, f1)) of
             (Some e, f2) \<Rightarrow> (Inl e, f2)
           | (None, f2) \<Rightarrow> (read_output w f2, f2)))"

text \<open>
  The two \<^verbatim>\<open>except\<close> clauses: each prints and returns \<^verbatim>\<open>None\<close>, here \<^const>\<open>JNull\<close>. An
  exception of the \<^verbatim>\<open>print\<close> of a handler leaves the function.
\<close>

definition run_except :: "world \<Rightarrow> exn \<Rightarrow> exn + json" where
  "run_except w e =
     (case print_error w (if exn_class_of e = TimeoutExpired then TimedOut else RunFailed) of
        Some e' \<Rightarrow> Inl e'
      | None \<Rightarrow> Inr JNull)"

text \<open>
  \<^verbatim>\<open>mkstemp\<close> and \<^verbatim>\<open>os.close\<close> run before the \<^verbatim>\<open>try\<close>: their exceptions leave the function,
  the first with no file created, the second with the empty file left behind. The
  \<^verbatim>\<open>finally\<close> clause deletes the file when it exists; an exception of \<^verbatim>\<open>os.unlink\<close> replaces
  the value or the exception that was on its way out.
\<close>

definition run_lighthouse :: "world \<Rightarrow> string \<Rightarrow> (exn + json) \<times> tmpfile" where
  "run_lighthouse w url =
     (case mkstemp_error w of
        Some e \<Rightarrow> (Inl e, None)
      | None \<Rightarrow>
     (case close_error w of
        Some e \<Rightarrow> (Inl e, Some [])
      | None \<Rightarrow>
          (case lighthouse_try w url (Some []) of
             (outcome, f) \<Rightarrow>
               (let result = (case outcome of Inl e \<Rightarrow> run_except w e | Inr d \<Rightarrow> Inr d)
                in if f \<noteq> None
                   then (case unlink_error w of
                           Some e \<Rightarrow> (Inl e, f)
                         | None \<Rightarrow> (result, None))
                   else (result, f)))))"

section \<open>analyzer.py: \<open>_process_lighthouse_results\<close>\<close>

text \<open>
  Each statement of the \<^verbatim>\<open>try\<close> body is a step that either raises, leaving the dictionary
  as it was, or returns the updated dictionary. \<open>run_steps\<close> runs them in order and stops
  at the first exception, keeping what the earlier steps wrote.
\<close>

type_synonym step = "results \<Rightarrow> exn + results"

fun run_steps :: "step list \<Rightarrow> results \<Rightarrow> exn option \<times> results" where
  "run_steps [] results = (None, results)"
| "run_steps (s # ss) results =
     (case s results of
        Inl e \<Rightarrow> (Some e, results)
      | Inr results' \<Rightarrow> run_steps ss results')"

text \<open>\<^verbatim>\<open>int(categories[name]['score'] * 100)\<close>\<close>

definition category_score :: "world \<Rightarrow> json \<Rightarrow> string \<Rightarrow> exn + int" where
  "category_score w categories name =
     and_then (py_getitem w categories name) (\<lambda>category.
     and_then (py_getitem w category ''score'') (\<lambda>score.
     and_then (py_times_100 w score) (py_int w)))"

text \<open>\<^verbatim>\<open>if name in categories: results[field] = int(categories[name]['score'] * 100)\<close>\<close>

definition score_step :: "world \<Rightarrow> json \<Rightarrow> string \<Rightarrow> (int \<Rightarrow> results \<Rightarrow> results) \<Rightarrow> step" where
  "score_step w categories name assign results =
     and_then (py_in w name categories) (\<lambda>present.
       if present
       then and_then (category_score w categories name) (\<lambda>n. Inr (assign n results))
       else Inr results)"

definition category_steps :: "world \<Rightarrow> json \<Rightarrow> step list" where
  "category_steps w categories =
     [score_step w categories ''performance'' (\<lambda>n r. r\<lparr>performance_score := n\<rparr>),
      score_step w categories ''accessibility'' (\<lambda>n r. r\<lparr>accessibility_score := n\<rparr>),
      score_step w categories ''best-practices'' (\<lambda>n r. r\<lparr>best_practices_score := n\<rparr>),
      score_step w categories ''seo'' (\<lambda>n r. r\<lparr>seo_score := n\<rparr>)]"

text \<open>
  \<^verbatim>\<open>if name in audits: if audits[name].get('score', 1) < 0.5: results['issues'].append(...)\<close>.
  The message is computed from the audit: three of them interpolate its \<^verbatim>\<open>displayValue\<close>.
\<close>

definition audit_step :: "world \<Rightarrow> json \<Rightarrow> string \<Rightarrow> (json \<Rightarrow> exn + string) \<Rightarrow> step" where
  "audit_step w audits name message results =
     and_then (py_in w name audits) (\<lambda>present.
       if present
       then and_then (py_getitem w audits name) (\<lambda>audit.
            and_then (py_get w audit ''score'' (JInt 1)) (\<lambda>score.
            and_then (py_lt_half w score) (\<lambda>low.
              if low
              then and_then (message audit) (\<lambda>msg. Inr (append_issue msg results))
              else Inr results)))
       else Inr results)"

definition with_display_value :: "world \<Rightarrow> string \<Rightarrow> json \<Rightarrow> exn + string" where
  "with_display_value w label audit =
     and_then (py_get w audit ''displayValue'' JNull) (\<lambda>v.
       Inr (label @ py_str w v @ '')''))"

definition fixed_message :: "string \<Rightarrow> json \<Rightarrow> exn + string" where
  "fixed_message s audit = Inr s"

definition audit_steps :: "world \<Rightarrow> json \<Rightarrow> step list" where
  "audit_steps w audits =
     [audit_step w audits ''largest-contentful-paint''
        (with_display_value w ''Slow content loading (LCP: ''),
      audit_step w audits ''total-blocking-time''
        (with_display_value w ''Poor interactivity (TBT: ''),
      audit_step w audits ''cumulative-layout-shift''
        (with_display_value w ''Layout shifts during loading (CLS: ''),
      audit_step w audits ''meta-description'' (fixed_message ''Missing meta description''),
      audit_step w audits ''document-title''
        (fixed_message ''Missing or poor document title''),
      audit_step w audits ''color-contrast'' (fixed_message ''Poor color contrast for text''),
      audit_step w audits ''image-alt'' (fixed_message ''Images missing alt text''),
      audit_step w audits ''is-on-https'' (fixed_message ''Not using HTTPS''),
      audit_step w audits ''doctype'' (fixed_message ''Missing doctype'')]"

definition lighthouse_except :: "exn \<Rightarrow> results \<Rightarrow> results" where
  "lighthouse_except e results =
     append_issue (''Error processing Lighthouse results: '' @ exn_str e) results"

definition process_lighthouse_results :: "world \<Rightarrow> json \<Rightarrow> results \<Rightarrow> results" where
  "process_lighthouse_results w lighthouse_data results =
     (case py_get w lighthouse_data ''categories'' (JDict []) of
        Inl e \<Rightarrow> lighthouse_except e results
      | Inr categories \<Rightarrow>
          (case run_steps (category_steps w categories) results of
             (Some e, results) \<Rightarrow> lighthouse_except e results
           | (None, results) \<Rightarrow>
               (case py_get w lighthouse_data ''audits'' (JDict []) of
                  Inl e \<Rightarrow> lighthouse_except e results
                | Inr audits \<Rightarrow>
                    (case run_steps (audit_steps w audits) results of
                       (Some e, results) \<Rightarrow> lighthouse_except e results
                     | (None, results) \<Rightarrow> results))))"

section \<open>analyzer.py: \<open>_perform_basic_analysis\<close>\<close>

text \<open>
  \<^verbatim>\<open>response.headers\<close> compares header names without regard to case.
\<close>

definition header_in :: "string \<Rightarrow> string list \<Rightarrow> bool" where
  "header_in h hs = (str_lower h \<in> set (map str_lower hs))"

definition security_headers :: "string list" where
  "security_headers =
     [''Strict-Transport-Security'', ''Content-Security-Policy'', ''X-Content-Type-Options'']"

definition check_performance :: "response \<Rightarrow> results \<Rightarrow> results" where
  "check_performance resp results =
     (if 1000000 < content_length resp
      then (append_issue ''Large page size'' results)\<lparr>performance_score := 50\<rparr>
      else results\<lparr>performance_score := 70\<rparr>)"

definition check_seo :: "string \<Rightarrow> results \<Rightarrow> results" where
  "check_seo html results0 =
     (let results = results0\<lparr>seo_score := 60\<rparr>;
          results =
            (if \<not> sublist ''<title>'' html \<or> sublist ''<title></title>'' html
             then (append_issue ''Missing page title'' results)\<lparr>seo_score := 40\<rparr>
             else results)
      in if \<not> sublist (''meta name='' @ [CHR 0x22] @ ''description'' @ [CHR 0x22]) html
            \<and> \<not> sublist ''meta content='' html
         then (append_issue ''Missing meta description'' results)\<lparr>seo_score := 40\<rparr>
         else results)"

definition check_accessibility :: "string \<Rightarrow> results \<Rightarrow> results" where
  "check_accessibility html results0 =
     (let results = results0\<lparr>accessibility_score := 50\<rparr>
      in if sublist ''<img '' html
            \<and> (\<not> sublist ('' alt='' @ [CHR 0x22]) html \<or> \<not> sublist '' alt='' html)
         then (append_issue ''Images may be missing alt text'' results)
                \<lparr>accessibility_score := 40\<rparr>
         else results)"

definition check_best_practices :: "response \<Rightarrow> results \<Rightarrow> results" where
  "check_best_practices resp results0 =
     (let results = results0\<lparr>best_practices_score := 60\<rparr>;
          missing_headers = filter (\<lambda>h. \<not> header_in h (headers resp)) security_headers
      in if missing_headers \<noteq> []
         then (append_issue (''Missing security headers: '' @ join '', '' missing_headers)
                 results)\<lparr>best_practices_score := 40\<rparr>
         else results)"

definition perform_basic_analysis :: "world \<Rightarrow> string \<Rightarrow> results \<Rightarrow> results" where
  "perform_basic_analysis w url results =
     (case requests_get_fallback w url of
        Inl e \<Rightarrow> append_issue (''Error during basic analysis: '' @ exn_str e) results
      | Inr resp \<Rightarrow>
          (let html = str_lower (resp_text resp)
           in check_best_practices resp
                (check_accessibility html
                  (check_seo html
                    (check_performance resp results)))))"

section \<open>analyzer.py: \<open>_calculate_priority\<close>\<close>

text \<open>
  \<^verbatim>\<open>sum(scores) / len(scores)\<close> is the true division of an integer by 4. It raises
  \<^verbatim>\<open>OverflowError\<close> when the quotient, rounded to the nearest float, is beyond the largest
  float, that is from \<open>2 ^ 1024 - 2 ^ 970\<close> on. Otherwise the rounded quotient is below 60
  exactly when the quotient is: the multiples of a quarter below 60 are floats.
\<close>

definition marker :: string where
  "marker = ''Error accessing website''"

definition true_division_overflows :: "int \<Rightarrow> int \<Rightarrow> bool" where
  "true_division_overflows a b = (2 ^ 1024 - 2 ^ 970 \<le> \<bar>real_of_int a / real_of_int b\<bar>)"

definition calculate_priority :: "results \<Rightarrow> exn + int" where
  "calculate_priority results =
     (if sublist marker (join '' '' (issues results)) then Inr 1
      else (let scores = [performance_score results, seo_score results,
                          accessibility_score results, best_practices_score results]
            in if true_division_overflows (sum_list scores) (int (length scores))
               then Inl (Exn OverflowError ''integer division result too large for a float'')
               else (let avg_score = real_of_int (sum_list scores) / real (length scores)
                     in if avg_score < 60 \<or> 3 < length (issues results) then Inr 2
                        else Inr 3)))"

section \<open>analyzer.py: \<open>analyze_website\<close>\<close>

text \<open>
  The function returns the dictionary or lets an exception through, together with the
  state of the temporary file of \<^verbatim>\<open>_run_lighthouse\<close> after the call (\<open>None\<close> as well when
  the file was never created).
\<close>

definition set_priority :: "results \<Rightarrow> tmpfile \<Rightarrow> (exn + results) \<times> tmpfile" where
  "set_priority results f =
     (case calculate_priority results of
        Inl e \<Rightarrow> (Inl e, f)
      | Inr p \<Rightarrow> (Inr (results\<lparr>priority := Some p\<rparr>), f))"

definition ensure_scheme :: "string \<Rightarrow> string" where
  "ensure_scheme url =
     (if \<not> (prefix ''http://'' url \<or> prefix ''https://'' url) then ''https://'' @ url
      else url)"

definition analyze_website :: "world \<Rightarrow> analyzer \<Rightarrow> string \<Rightarrow> (exn + results) \<times> tmpfile" where
  "analyze_website w self url0 =
     (if url0 = [] then (Inr (append_issue ''No URL provided'' initial_results), None)
      else (let url = ensure_scheme url0;
                results = check_website_basics w url initial_results
            in if lighthouse_available self
               then (case run_lighthouse w url of
                       (Inl e, f) \<Rightarrow> (Inl e, f)
                     | (Inr lighthouse_results, f) \<Rightarrow>
                         if truthy lighthouse_results
                         then set_priority
                                (process_lighthouse_results w lighthouse_results results) f
                         else set_priority results f)
               else set_priority
                      (perform_basic_analysis w url
                        (append_issue ''Lighthouse not available for detailed analysis''
                           results))
                      None))"

section \<open>Auxiliary notions for the proofs\<close>

text \<open>A step grows the issue list when, whenever it returns, the old list is a prefix of
  the new one.\<close>

definition grows :: "step \<Rightarrow> bool" where
  "grows s = (\<forall>r r'. s r = Inr r' \<longrightarrow> prefix (issues r) (issues r'))"

text \<open>
  A world in which every collaborator answers: a small page served over HTTPS, no browser
  binary, a standalone auditor that writes a report with two categories, a working
  standard output.
\<close>

definition plain_page :: response where
  "plain_page =
     \<lparr>status_code = 200, resp_url = ''https://example.com/'',
      resp_text = ''<html><title>Shop</title><meta name=viewport><img src=a.png></html>'',
      content_length = 68, headers = [''Content-Type'']\<rparr>"

definition sample_report :: json where
  "sample_report =
     JDict [(''categories'',
             JDict [(''performance'', JDict [(''score'', JFloat (float_of_literal (9 / 10)))]),
                    (''seo'', JDict [(''score'', JFloat (float_of_literal (3 / 10)))])])]"

definition calm_world :: world where
  "calm_world =
     \<lparr>requests_head = (\<lambda>u. Inr 200),
      requests_get_probe = (\<lambda>u. Inr plain_page),
      requests_get_fallback = (\<lambda>u. Inr plain_page),
      urlparse_netloc = (\<lambda>u. Inr ''example.com''),
      mkstemp_error = None,
      close_error = None,
      chrome_found = False,
      mkdtemp_error = None,
      popen_error = None,
      run_npx_lighthouse = (\<lambda>u f. (None, f)),
      run_standalone_lighthouse = (\<lambda>u f. (None, Some ''{...}'')),
      load_json = (\<lambda>s. Inr sample_report),
      unlink_error = None,
      print_error = (\<lambda>site. None),
      int_of_str = (\<lambda>s. Inl (Exn ValueError ''invalid literal for int()'')),
      py_repr = (\<lambda>v. ''?''),
      error_text = (\<lambda>c v. ''error'')\<rparr>"

definition with_lighthouse :: analyzer where
  "with_lighthouse = \<lparr>use_lighthouse = True, lighthouse_available = True\<rparr>"

definition without_lighthouse :: analyzer where
  "without_lighthouse = \<lparr>use_lighthouse = True, lighthouse_available = False\<rparr>"

text \<open>Variations of the calm world: the temporary file cannot be created; its descriptor
  cannot be closed; the standalone auditor times out after a partial write; it writes
  nothing; it deletes the file; the output does not parse; the standard output is closed
  while the auditor times out.\<close>

definition close_fails_world :: world where
  "close_fails_world =
     calm_world\<lparr>close_error := Some (Exn OSError ''[Errno 5] Input/output error'')\<rparr>"

definition full_disk_world :: world where
  "full_disk_world =
     calm_world\<lparr>mkstemp_error := Some (Exn OSError ''[Errno 28] No space left on device'')\<rparr>"

definition timeout_world :: world where
  "timeout_world =
     calm_world\<lparr>run_standalone_lighthouse :=
       (\<lambda>u f. (Some (Exn TimeoutExpired ''Command timed out after 60 seconds''), Some ''{''))\<rparr>"

definition empty_output_world :: world where
  "empty_output_world = calm_world\<lparr>run_standalone_lighthouse := (\<lambda>u f. (None, f))\<rparr>"

definition missing_output_world :: world where
  "missing_output_world = calm_world\<lparr>run_standalone_lighthouse := (\<lambda>u f. (None, None))\<rparr>"

definition bad_json_world :: world where
  "bad_json_world =
     calm_world\<lparr>load_json := (\<lambda>s. Inl (Exn ValueError ''Expecting value: line 1 column 1 (char 0)''))\<rparr>"

definition closed_stdout_world :: world where
  "closed_stdout_world =
     timeout_world\<lparr>print_error := (\<lambda>site. Some (Exn ValueError ''I/O operation on closed file.''))\<rparr>"

definition unavailable_issue :: string where
  "unavailable_issue = ''Lighthouse not available for detailed analysis''"

text \<open>
  A page with a title, a meta tag, no image and the three security headers, but no
  viewport tag, served at a plain HTTP address whose HTTPS variant answers.
\<close>

definition tidy_page :: response where
  "tidy_page =
     \<lparr>status_code = 200, resp_url = ''http://example.com/'',
      resp_text = ''<html><title>Shop</title><meta content=x></html>'',
      content_length = 48,
      headers = [''strict-transport-security'', ''Content-Security-Policy'',
                 ''X-Content-Type-Options'']\<rparr>"

definition tidy_world :: world where
  "tidy_world =
     calm_world\<lparr>requests_get_probe := (\<lambda>u. Inr tidy_page),
                requests_get_fallback := (\<lambda>u. Inr tidy_page)\<rparr>"

definition alt_issue :: string where
  "alt_issue = ''Images may be missing alt text''"

text \<open>A page whose only image tag is \<^verbatim>\<open><img>\<close>, without attributes.\<close>

definition bare_img_page :: response where
  "bare_img_page = plain_page\<lparr>resp_text := ''<p>Gallery</p><img>''\<rparr>"

definition bare_img_world :: world where
  "bare_img_world = calm_world\<lparr>requests_get_fallback := (\<lambda>u. Inr bare_img_page)\<rparr>"

section \<open>The normalizer's scores, stated from the report\<close>

text \<open>
  \<^verbatim>\<open>int(score * 100)\<close> for a numeric score: an integer is multiplied exactly, the product
  of a float is rounded to the nearest double and then truncated toward zero. \<open>None\<close> where
  the score is not a number or the product is not finite.
\<close>

fun scaled :: "json \<Rightarrow> int option" where
  "scaled (JInt n) = Some (n * 100)"
| "scaled (JFloat f) =
     (case float_times_100 f of Finite y \<Rightarrow> Some (py_trunc y) | _ \<Rightarrow> None)"
| "scaled v = None"

text \<open>
  The value a score field has after normalization, for a field holding \<open>old\<close> before: \<open>old\<close>
  when the category is absent from the \<^verbatim>\<open>categories\<close> section \<open>cs\<close>, the scaled score when
  the category is present with a numeric score; \<open>None\<close> when the category is present
  without one.
\<close>

definition normalized_score :: "(string \<times> json) list \<Rightarrow> string \<Rightarrow> int \<Rightarrow> int option" where
  "normalized_score cs name old =
     (case map_of cs name of
        None \<Rightarrow> Some old
      | Some (JDict c) \<Rightarrow> (case map_of c ''score'' of Some s \<Rightarrow> scaled s | None \<Rightarrow> None)
      | Some _ \<Rightarrow> None)"

definition truncating_report :: json where
  "truncating_report =
     JDict [(''categories'',
             JDict [(''performance'', JDict [(''score'', JFloat (Finite (15 / 16)))])])]"

definition inexact_report :: json where
  "inexact_report =
     JDict [(''categories'',
             JDict [(''performance'', JDict [(''score'', JFloat (float_of_literal (29 / 100)))])])]"

text \<open>Every issue the analyzer records starts with a capital letter.\<close>

definition capitalised :: "string \<Rightarrow> bool" where
  "capitalised s = (case s of [] \<Rightarrow> False | c # cs \<Rightarrow> c \<in> set ascii_uppercase)"

section \<open>The priority rule, stated from the specification\<close>

text \<open>
  Priority 1 when some recorded issue contains the marker; otherwise priority 2 when the
  unweighted mean of the four scores is below 60 or there are more than three issues;
  otherwise priority 3.
\<close>

definition priority_by_rule :: "results \<Rightarrow> int" where
  "priority_by_rule r =
     (if list_ex (sublist marker) (issues r) then 1
      else if real_of_int (performance_score r + seo_score r + accessibility_score r
                            + best_practices_score r) / 4 < 60
              \<or> 3 < length (issues r) then 2
      else 3)"

text \<open>A world without network, and a world whose auditor reports a perfect score in
  each of the four categories.\<close>

definition offline_world :: world where
  "offline_world =
     calm_world\<lparr>requests_get_probe := (\<lambda>u. Inl (Exn RequestException ''Connection refused'')),
                requests_get_fallback :=
                  (\<lambda>u. Inl (Exn RequestException ''Connection refused''))\<rparr>"

definition perfect_report :: json where
  "perfect_report =
     JDict [(''categories'',
             JDict [(''performance'', JDict [(''score'', JInt 1)]),
                    (''accessibility'', JDict [(''score'', JInt 1)]),
                    (''best-practices'', JDict [(''score'', JInt 1)]),
                    (''seo'', JDict [(''score'', JInt 1)])])]"

definition perfect_world :: world where
  "perfect_world = calm_world\<lparr>load_json := (\<lambda>s. Inr perfect_report)\<rparr>"

section \<open>Properties of \<open>extract_postcode\<close>\<close>

lemma count_leading_take:
  "k \<le> count_leading cls s \<Longrightarrow> list_all (\<lambda>c. c \<in> set cls) (take k s) \<and> k \<le> length s"
proof (induction s arbitrary: k)
  case Nil
  then show ?case by simp
next
  case (Cons c s)
  then show ?case by (cases k) (auto split: if_splits)
qed

lemma try_counts_sound:
  assumes "try_counts k lo n s = Some m"
    and "n \<le> count_leading cls s"
    and "n \<le> hi"
    and "\<And>j r. k (drop j s) = Some r \<Longrightarrow> prefix r (drop j s) \<and> in_lang items r"
  shows "prefix m s \<and> in_lang ((cls, lo, hi) # items) m"
  using assms(1-3)
proof (induction n)
  case 0
  then have lo0: "lo = 0" and ks: "k s = Some m" by (auto split: if_splits)
  from assms(4)[of 0 m] ks have "prefix m s" "in_lang items m" by auto
  then show ?case using lo0 by (auto simp: list_ex_iff intro!: bexI[of _ 0])
next
  case (Suc n)
  show ?case
  proof (cases "k (drop (Suc n) s)")
    case None
    with Suc show ?thesis by (auto split: if_splits)
  next
    case (Some r)
    with Suc.prems have m: "m = take (Suc n) s @ r" and lo: "lo \<le> Suc n" by (auto split: if_splits)
    from assms(4)[OF Some] have r: "prefix r (drop (Suc n) s)" "in_lang items r" by auto
    from count_leading_take[OF Suc.prems(2)] have t: "list_all (\<lambda>c. c \<in> set cls) (take (Suc n) s)" "Suc n \<le> length s" by auto
    have p: "prefix m s" using r(1) m by (metis append_take_drop_id same_prefix_prefix)
    have len: "length (take (Suc n) s) = Suc n" using t(2) by simp
    have "in_lang ((cls, lo, hi) # items) m"
      using lo Suc.prems(3) t r(2) len unfolding m
      by (auto simp: list_ex_iff intro!: bexI[of _ "Suc n"])
    with p show ?thesis by simp
  qed
qed

lemma match_here_sound: "match_here items s = Some m \<Longrightarrow> prefix m s \<and> in_lang items m"
proof (induction items arbitrary: s m)
  case Nil
  then show ?case by simp
next
  case (Cons it items)
  obtain cls lo hi where it: "it = (cls, lo, hi)" by (cases it)
  from Cons.prems have "try_counts (match_here items) lo (min hi (count_leading cls s)) s = Some m"
    by (simp add: it)
  then show ?case unfolding it
    by (rule try_counts_sound) (use Cons.IH in auto)
qed

lemma in_lang_contains:
  assumes "in_lang items m" and "s = pre @ m @ post"
  shows "contains_pattern items s"
proof -
  have i: "length pre \<in> set [0..<Suc (length s)]" using assms(2) by simp
  have n: "length m \<in> set [0..<Suc (length s - length pre)]" using assms(2) by simp
  have "take (length m) (drop (length pre) s) = m" using assms(2) by simp
  with assms(1) have "in_lang items (take (length m) (drop (length pre) s))" by simp
  with i n show ?thesis unfolding contains_pattern_def list_ex_iff by blast
qed

lemma re_search_sound: "re_search items s = Some m \<Longrightarrow> \<exists>pre post. s = pre @ m @ post \<and> in_lang items m"
proof (induction s)
  case Nil
  then have "match_here items [] = Some m" by simp
  from match_here_sound[OF this] show ?case by auto
next
  case (Cons c s)
  show ?case
  proof (cases "match_here items (c # s)")
    case None
    with Cons obtain pre post where "s = pre @ m @ post" "in_lang items m" by auto
    then have "c # s = (c # pre) @ m @ post \<and> in_lang items m" by simp
    then show ?thesis by blast
  next
    case (Some r)
    with Cons.prems have "r = m" by simp
    with Some match_here_sound have "prefix m (c # s)" "in_lang items m" by auto
    then obtain post where "c # s = [] @ m @ post" by (auto simp: prefix_def)
    with \<open>in_lang items m\<close> show ?thesis by blast
  qed
qed

lemma extract_postcode_none:
  "\<not> contains_pattern uk_postcode (str_upper u text) \<Longrightarrow> extract_postcode u text = None"
  using re_search_sound[of uk_postcode "str_upper u text"]
    in_lang_contains[of uk_postcode _ "str_upper u text"]
  by (auto simp: extract_postcode_def split: option.splits)

text \<open>Conversely, the matcher finds a match wherever the language has a word.\<close>

lemma count_leading_ge:
  "k \<le> length s \<Longrightarrow> list_all (\<lambda>c. c \<in> set cls) (take k s) \<Longrightarrow> k \<le> count_leading cls s"
proof (induction s arbitrary: k)
  case Nil
  then show ?case by simp
next
  case (Cons c s)
  then show ?case by (cases k) auto
qed

lemma try_counts_complete:
  assumes "k (drop j s) \<noteq> None" and "lo \<le> j" and "j \<le> n"
  shows "try_counts k lo n s \<noteq> None"
  using assms
proof (induction n)
  case 0
  then show ?case by simp
next
  case (Suc n)
  show ?case
  proof (cases "j = Suc n")
    case True
    with Suc.prems show ?thesis by (auto split: option.splits)
  next
    case False
    with Suc.prems have "j \<le> n" by simp
    with Suc have "try_counts k lo n s \<noteq> None" by simp
    with Suc.prems \<open>j \<le> n\<close> show ?thesis by (auto split: option.splits)
  qed
qed

lemma match_here_complete: "in_lang items m \<Longrightarrow> match_here items (m @ rest) \<noteq> None"
proof (induction items arbitrary: m)
  case Nil
  then show ?case by simp
next
  case (Cons it items)
  obtain cls lo hi where it: "it = (cls, lo, hi)" by (cases it)
  from Cons.prems obtain j where j: "lo \<le> j" "j \<le> hi" "j \<le> length m"
    "list_all (\<lambda>c. c \<in> set cls) (take j m)" "in_lang items (drop j m)"
    by (auto simp: it list_ex_iff)
  from j(3,4) have "j \<le> count_leading cls (m @ rest)"
    by (intro count_leading_ge) simp_all
  with j(2) have n: "j \<le> min hi (count_leading cls (m @ rest))" by simp
  from Cons.IH[OF j(5)] j(3) have "match_here items (drop j (m @ rest)) \<noteq> None" by simp
  from try_counts_complete[of "match_here items" j "m @ rest" lo
      "min hi (count_leading cls (m @ rest))", OF this j(1) n]
  show ?case by (simp add: it)
qed

lemma re_search_complete:
  "in_lang items m \<Longrightarrow> re_search items (pre @ m @ post) \<noteq> None"
proof (induction pre)
  case Nil
  from match_here_complete[OF Nil, of post] show ?case
    by (cases "m @ post") (auto split: option.splits)
next
  case (Cons c pre)
  then show ?case by (auto split: option.splits)
qed

lemma contains_pattern_iff:
  "contains_pattern items s \<longleftrightarrow> (\<exists>pre m post. s = pre @ m @ post \<and> in_lang items m)"
proof
  assume "contains_pattern items s"
  then obtain i n where "in_lang items (take n (drop i s))"
    unfolding contains_pattern_def list_ex_iff by blast
  moreover have "s = take i s @ take n (drop i s) @ drop n (drop i s)"
    by (metis append_take_drop_id)
  ultimately show "\<exists>pre m post. s = pre @ m @ post \<and> in_lang items m" by blast
next
  assume "\<exists>pre m post. s = pre @ m @ post \<and> in_lang items m"
  then show "contains_pattern items s" by (auto intro: in_lang_contains)
qed

lemma extract_postcode_none_iff:
  "extract_postcode u s = None \<longleftrightarrow> \<not> contains_pattern uk_postcode (str_upper u s)"
proof
  assume none: "extract_postcode u s = None"
  show "\<not> contains_pattern uk_postcode (str_upper u s)"
  proof (cases "s = []")
    case True
    have "\<not> contains_pattern uk_postcode []" by code_simp
    with True show ?thesis by (simp add: str_upper_def)
  next
    case False
    with none have "re_search uk_postcode (str_upper u s) = None"
      by (auto simp: extract_postcode_def split: option.splits)
    with re_search_complete show ?thesis
      unfolding contains_pattern_iff by metis
  qed
next
  assume "\<not> contains_pattern uk_postcode (str_upper u s)"
  then show "extract_postcode u s = None" by (rule extract_postcode_none)
qed

lemma str_upper_ascii:
  "list_all is_ascii s \<Longrightarrow> str_upper u s = map upper_char s"
  by (induction s) (simp_all add: str_upper_def)

text \<open>
  C9. Whatever the upper case of the characters outside ASCII:
  \<^verbatim>\<open>extract_postcode\<close> returns \<^verbatim>\<open>SW1A 1AA\<close> on the text \<^verbatim>\<open>visit us at SW1A 1AA today\<close>; on the
  unspaced postcode \<^verbatim>\<open>SW1A1AA\<close>, alone or inside a sentence, it returns the value with a
  space inserted before the last three characters; and it returns \<^verbatim>\<open>None\<close> on a text no
  piece of which, once put in upper case by \<^verbatim>\<open>str.upper\<close>, has the shape of a UK postcode,
  and on no other text. On a text of ASCII characters the upper case is the one of the
  letters a to z.
\<close>

theorem extract_postcode_scenarios:
  "extract_postcode u ''visit us at SW1A 1AA today'' = Some ''SW1A 1AA''
   \<and> extract_postcode u ''SW1A1AA'' = Some ''SW1A 1AA''
   \<and> extract_postcode u ''call SW1A1AA now'' = Some ''SW1A 1AA''
   \<and> (extract_postcode u text = None
        \<longleftrightarrow> \<not> contains_pattern uk_postcode (str_upper u text))
   \<and> (list_all is_ascii text \<longrightarrow> str_upper u text = map upper_char text)"
proof -
  have "extract_postcode u ''visit us at SW1A 1AA today'' = Some ''SW1A 1AA''"
    by code_simp
  moreover have "extract_postcode u ''SW1A1AA'' = Some ''SW1A 1AA''"
    by code_simp
  moreover have "extract_postcode u ''call SW1A1AA now'' = Some ''SW1A 1AA''"
    by code_simp
  ultimately show ?thesis
    using extract_postcode_none_iff[of u "text"] str_upper_ascii[of "text" u] by blast
qed

text \<open>A text without a postcode, and a text whose upper case has one only because
  U+00DF becomes \<^verbatim>\<open>SS\<close>.\<close>

theorem extract_postcode_scenarios_witness:
  "list_all is_ascii ''hello world''
   \<and> str_upper (\<lambda>c. if c = CHR 0xDF then ''SS'' else [c]) ''hello world'' = ''HELLO WORLD''
   \<and> \<not> contains_pattern uk_postcode ''HELLO WORLD''
   \<and> extract_postcode (\<lambda>c. if c = CHR 0xDF then ''SS'' else [c]) ''hello world'' = None
   \<and> contains_pattern uk_postcode
        (str_upper (\<lambda>c. if c = CHR 0xDF then ''SS'' else [c]) (CHR 0xDF # ''1 1aa''))
   \<and> extract_postcode (\<lambda>c. if c = CHR 0xDF then ''SS'' else [c]) (CHR 0xDF # ''1 1aa'')
       = Some ''SS1 1AA''"
proof -
  let ?u = "\<lambda>c. if c = CHR 0xDF then ''SS'' else [c]"
  have a: "list_all is_ascii ''hello world''"
    by (simp add: is_ascii_def)
  have b: "map upper_char ''hello world'' = ''HELLO WORLD''"
    by code_simp
  have c: "\<not> contains_pattern uk_postcode ''HELLO WORLD''"
    by code_simp
  have d: "extract_postcode ?u (CHR 0xDF # ''1 1aa'') = Some ''SS1 1AA''"
    by code_simp
  from extract_postcode_scenarios[of ?u "''hello world''"] a b c
  have e: "str_upper ?u ''hello world'' = ''HELLO WORLD''"
    and f: "extract_postcode ?u ''hello world'' = None"
    by simp_all
  from extract_postcode_scenarios[of ?u "CHR 0xDF # ''1 1aa''"] d
  have g: "contains_pattern uk_postcode (str_upper ?u (CHR 0xDF # ''1 1aa''))"
    by auto
  from a c d e f g show ?thesis by blast
qed

section \<open>The issue list only grows\<close>

lemma issues_append_issue [simp]: "issues (append_issue s r) = issues r @ [s]"
  by (simp add: append_issue_def)

lemma basics_except_grows: "prefix (issues r) (issues (basics_except e r))"
  by (simp add: basics_except_def)

lemma check_ssl_grows: "prefix (issues r) (issues (check_ssl w url r))"
  by (simp add: check_ssl_def Let_def split: sum.splits)

lemma check_page_grows: "prefix (issues r) (issues (check_page w url resp r))"
  by (simp add: check_page_def Let_def basics_except_grows split: sum.splits)

lemma check_website_basics_grows: "prefix (issues r) (issues (check_website_basics w url r))"
proof -
  have "prefix (issues (check_ssl w url r)) (issues (check_website_basics w url r))"
    by (simp add: check_website_basics_def Let_def basics_except_grows check_page_grows
        split: sum.splits)
  with check_ssl_grows[of r w url] show ?thesis
    by (rule prefix_order.trans)
qed

lemma run_steps_grows:
  "list_all grows ss \<Longrightarrow> prefix (issues r) (issues (snd (run_steps ss r)))"
proof (induction ss arbitrary: r)
  case Nil
  then show ?case by simp
next
  case (Cons s ss)
  show ?case
  proof (cases "s r")
    case (Inl e)
    then show ?thesis by simp
  next
    case (Inr r')
    with Cons.prems have "prefix (issues r) (issues r')" by (auto simp: grows_def)
    moreover from Cons have "prefix (issues r') (issues (snd (run_steps ss r')))" by simp
    ultimately show ?thesis using Inr by (auto intro: prefix_order.trans)
  qed
qed

lemma score_step_grows:
  "(\<And>n r. issues (assign n r) = issues r) \<Longrightarrow> grows (score_step w categories name assign)"
  by (auto simp: grows_def score_step_def and_then_def split: sum.splits if_splits)

lemma audit_step_grows: "grows (audit_step w audits name message)"
  by (auto simp: grows_def audit_step_def and_then_def split: sum.splits if_splits)

lemma category_steps_grow: "list_all grows (category_steps w categories)"
  by (simp add: category_steps_def score_step_grows)

lemma audit_steps_grow: "list_all grows (audit_steps w audits)"
  by (simp add: audit_steps_def audit_step_grows)

lemma lighthouse_except_grows: "prefix (issues r) (issues (lighthouse_except e r))"
  by (simp add: lighthouse_except_def)

lemma process_lighthouse_results_grows:
  "prefix (issues r) (issues (process_lighthouse_results w d r))"
proof (cases "py_get w d ''categories'' (JDict [])")
  case (Inl e)
  then show ?thesis by (simp add: process_lighthouse_results_def lighthouse_except_grows)
next
  case (Inr categories)
  obtain e1 r1 where s1: "run_steps (category_steps w categories) r = (e1, r1)"
    by (cases "run_steps (category_steps w categories) r")
  have p1: "prefix (issues r) (issues r1)"
    using run_steps_grows[OF category_steps_grow, of r w categories] s1 by simp
  show ?thesis
  proof (cases e1)
    case (Some e)
    have "prefix (issues r1) (issues (lighthouse_except e r1))" by (rule lighthouse_except_grows)
    with p1 show ?thesis using Inr s1 Some
      by (auto simp: process_lighthouse_results_def intro: prefix_order.trans)
  next
    case None
    show ?thesis
    proof (cases "py_get w d ''audits'' (JDict [])")
      case (Inl e)
      have "prefix (issues r1) (issues (lighthouse_except e r1))" by (rule lighthouse_except_grows)
      with p1 show ?thesis using Inr s1 None Inl
        by (auto simp: process_lighthouse_results_def intro: prefix_order.trans)
    next
      case audits: (Inr audits)
      obtain e2 r2 where s2: "run_steps (audit_steps w audits) r1 = (e2, r2)"
        by (cases "run_steps (audit_steps w audits) r1")
      have p2: "prefix (issues r1) (issues r2)"
        using run_steps_grows[OF audit_steps_grow, of r1 w audits] s2 by simp
      have p3: "prefix (issues r2) (issues (lighthouse_except e r2))" for e
        by (rule lighthouse_except_grows)
      from p1 p2 have p12: "prefix (issues r) (issues r2)" by (rule prefix_order.trans)
      show ?thesis
      proof (cases e2)
        case None2: None
        with p12 show ?thesis using Inr s1 None audits s2
          by (simp add: process_lighthouse_results_def)
      next
        case (Some e)
        from p12 p3[of e] have "prefix (issues r) (issues (lighthouse_except e r2))"
          by (rule prefix_order.trans)
        then show ?thesis using Inr s1 None audits s2 Some
          by (simp add: process_lighthouse_results_def)
      qed
    qed
  qed
qed

lemma perform_basic_analysis_grows:
  "prefix (issues r) (issues (perform_basic_analysis w url r))"
  by (simp add: perform_basic_analysis_def check_best_practices_def check_accessibility_def
      check_seo_def check_performance_def Let_def split: sum.splits)

lemma set_priority_issues: "set_priority r f = (Inr r', f') \<Longrightarrow> issues r' = issues r"
  by (auto simp: set_priority_def split: sum.splits)

section \<open>The empty URL, and an exception that escapes\<close>

lemma no_overflow_small: "\<bar>a\<bar> \<le> 1000 \<Longrightarrow> \<not> true_division_overflows a 4"
proof -
  assume a: "\<bar>a\<bar> \<le> 1000"
  have "\<bar>real_of_int a / real_of_int 4\<bar> \<le> 250"
    using a by (simp add: abs_le_iff) 
  moreover have "(250::real) < 2 ^ 1024 - 2 ^ 970" by simp
  ultimately show ?thesis by (simp add: true_division_overflows_def)
qed

lemma calculate_priority_zero_scores:
  "performance_score r = 0 \<Longrightarrow> seo_score r = 0 \<Longrightarrow> accessibility_score r = 0
   \<Longrightarrow> best_practices_score r = 0
   \<Longrightarrow> calculate_priority r = Inr (if sublist marker (join '' '' (issues r)) then 1 else 2)"
  by (simp add: calculate_priority_def no_overflow_small)

text \<open>
  C2 (as amended). \<^verbatim>\<open>analyze_website("")\<close> returns, in every world and for every analyzer,
  the initial dictionary with the single issue \<^verbatim>\<open>No URL provided\<close>: the four scores are 0 and
  the key \<^verbatim>\<open>priority\<close> is absent, since the function returns before the priority is
  computed. The priority rule, had it been applied to that dictionary, gives 2.
\<close>

theorem analyze_empty_url:
  "analyze_website w self [] =
     (Inr \<lparr>performance_score = 0, seo_score = 0, accessibility_score = 0,
           best_practices_score = 0, has_ssl = False, has_mobile_viewport = False,
           issues = [''No URL provided''], priority = None\<rparr>, None)
   \<and> calculate_priority
         \<lparr>performance_score = 0, seo_score = 0, accessibility_score = 0,
          best_practices_score = 0, has_ssl = False, has_mobile_viewport = False,
          issues = [''No URL provided''], priority = None\<rparr> = Inr 2"
  by (simp add: analyze_website_def initial_results_def append_issue_def
      calculate_priority_zero_scores marker_def sublist_code)

theorem analyze_empty_url_witness:
  "fst (analyze_website calm_world with_lighthouse []) =
     Inr \<lparr>performance_score = 0, seo_score = 0, accessibility_score = 0,
          best_practices_score = 0, has_ssl = False, has_mobile_viewport = False,
          issues = [''No URL provided''], priority = None\<rparr>"
  using analyze_empty_url[of calm_world with_lighthouse] by simp

text \<open>
  The claim as stated, that the result of \<^verbatim>\<open>analyze_website("")\<close> carries the priority 2,
  fails: the result carries no priority.
\<close>

theorem analyze_empty_url_counterexample:
  "analyze_website calm_world with_lighthouse [] =
     (Inr (append_issue ''No URL provided'' initial_results), None)
   \<and> priority (append_issue ''No URL provided'' initial_results) = None"
  by (simp add: analyze_website_def initial_results_def append_issue_def)

text \<open>
  C5. \<^verbatim>\<open>tempfile.mkstemp\<close> is called before the \<^verbatim>\<open>try\<close> statement of \<^verbatim>\<open>_run_lighthouse\<close>, and
  \<^verbatim>\<open>analyze_website\<close> calls \<^verbatim>\<open>_run_lighthouse\<close> outside any handler: when the temporary
  file cannot be created, the exception leaves \<^verbatim>\<open>analyze_website\<close> and no result is
  returned.
\<close>

theorem analyze_website_raises:
  "analyze_website full_disk_world with_lighthouse ''example.com'' =
     (Inl (Exn OSError ''[Errno 28] No space left on device''), None)"
  by (simp add: analyze_website_def run_lighthouse_def full_disk_world_def calm_world_def
      with_lighthouse_def)

section \<open>Scores written by the stages\<close>

lemma append_issue_fields [simp]:
  "performance_score (append_issue s r) = performance_score r"
  "seo_score (append_issue s r) = seo_score r"
  "accessibility_score (append_issue s r) = accessibility_score r"
  "best_practices_score (append_issue s r) = best_practices_score r"
  "priority (append_issue s r) = priority r"
  by (simp_all add: append_issue_def)

lemma basics_except_scores [simp]:
  "performance_score (basics_except e r) = performance_score r"
  "seo_score (basics_except e r) = seo_score r"
  "accessibility_score (basics_except e r) = accessibility_score r"
  "best_practices_score (basics_except e r) = best_practices_score r"
  by (simp_all add: basics_except_def)

lemma check_ssl_scores [simp]:
  "performance_score (check_ssl w url r) = performance_score r"
  "seo_score (check_ssl w url r) = seo_score r"
  "accessibility_score (check_ssl w url r) = accessibility_score r"
  "best_practices_score (check_ssl w url r) = best_practices_score r"
  by (simp_all add: check_ssl_def Let_def split: sum.splits)

lemma check_page_scores [simp]:
  "performance_score (check_page w url resp r) = performance_score r"
  "seo_score (check_page w url resp r) = seo_score r"
  "accessibility_score (check_page w url resp r) = accessibility_score r"
  "best_practices_score (check_page w url resp r) = best_practices_score r"
  by (simp_all add: check_page_def Let_def split: sum.splits)

lemma check_website_basics_scores:
  "performance_score (check_website_basics w url r) = performance_score r"
  "seo_score (check_website_basics w url r) = seo_score r"
  "accessibility_score (check_website_basics w url r) = accessibility_score r"
  "best_practices_score (check_website_basics w url r) = best_practices_score r"
  by (simp_all add: check_website_basics_def Let_def split: sum.splits)

lemma fallback_scores:
  assumes "requests_get_fallback w url = Inr resp"
  shows "performance_score (perform_basic_analysis w url r) \<in> {50, 70}"
    and "seo_score (perform_basic_analysis w url r) \<in> {40, 60}"
    and "accessibility_score (perform_basic_analysis w url r) \<in> {40, 50}"
    and "best_practices_score (perform_basic_analysis w url r) \<in> {40, 60}"
  using assms
  by (simp_all add: perform_basic_analysis_def check_best_practices_def
      check_accessibility_def check_seo_def check_performance_def Let_def)

lemma fallback_scores_failed:
  assumes "requests_get_fallback w url = Inl e"
  shows "performance_score (perform_basic_analysis w url r) = performance_score r"
    and "seo_score (perform_basic_analysis w url r) = seo_score r"
    and "accessibility_score (perform_basic_analysis w url r) = accessibility_score r"
    and "best_practices_score (perform_basic_analysis w url r) = best_practices_score r"
  using assms by (simp_all add: perform_basic_analysis_def)

lemma calculate_priority_bounded:
  assumes "\<bar>performance_score r + seo_score r + accessibility_score r
            + best_practices_score r\<bar> \<le> 1000"
  shows "\<exists>p. calculate_priority r = Inr p"
  using assms by (simp add: calculate_priority_def no_overflow_small)

lemma calculate_priority_range: "calculate_priority r = Inr p \<Longrightarrow> p \<in> {1, 2, 3}"
  by (auto simp: calculate_priority_def Let_def split: if_splits)

lemma calculate_priority_ignores_priority [simp]:
  "calculate_priority (r\<lparr>priority := x\<rparr>) = calculate_priority r"
  by (simp add: calculate_priority_def Let_def)

lemma fallback_priority_defined:
  assumes "performance_score r = 0" "seo_score r = 0" "accessibility_score r = 0"
    "best_practices_score r = 0"
  shows "\<exists>p. calculate_priority (perform_basic_analysis w url r) = Inr p"
proof (cases "requests_get_fallback w url")
  case (Inl e)
  show ?thesis
    by (rule calculate_priority_bounded) (simp add: fallback_scores_failed[OF Inl] assms)
next
  case (Inr resp)
  from fallback_scores[OF Inr, of r] show ?thesis
    by (intro calculate_priority_bounded) auto
qed

section \<open>Doubles\<close>

text \<open>The rounding, evaluated from the binade \<open>k\<close> and the significand \<open>m\<close> of the result;
  the floats of the literals 0.9, 0.3, 0.29 and 0.9375 and their products with 100.\<close>

lemma pow2_pos: "0 < pow2 k"
  by (simp add: pow2_def)

lemma pow2_powr: "pow2 k = 2 powr real_of_int k"
proof (cases "0 \<le> k")
  case True
  then have "2 powr real_of_int k = 2 powr real (nat k)" by simp
  also have "\<dots> = 2 ^ nat k" by (simp add: powr_realpow)
  finally show ?thesis using True by (simp add: pow2_def)
next
  case False
  then have "2 powr real_of_int k = 2 powr (- real (nat (- k)))" by simp
  also have "\<dots> = 1 / 2 ^ nat (- k)" by (simp add: powr_minus powr_realpow divide_inverse)
  finally show ?thesis using False by (simp add: pow2_def)
qed

lemma floor_log2:
  assumes "pow2 k \<le> x" and "x < pow2 (k + 1)"
  shows "\<lfloor>log 2 x\<rfloor> = k"
proof -
  from assms(1) pow2_pos[of k] have "0 < x" by simp
  then show ?thesis
    using assms by (simp add: floor_log_eq_powr_iff pow2_powr)
qed

lemma round_half_even_eq:
  assumes "of_int m - 1 / 2 < x" and "x < of_int m + 1 / 2"
  shows "round_half_even x = m"
proof (cases "of_int m \<le> x")
  case True
  with assms have "\<lfloor>x\<rfloor> = m" by (simp add: floor_eq_iff)
  with assms show ?thesis by (simp add: round_half_even_def)
next
  case False
  with assms have f: "\<lfloor>x\<rfloor> = m - 1" by (simp add: floor_eq_iff)
  with assms show ?thesis by (simp add: round_half_even_def)
qed

lemma round_to_double_eval:
  assumes "pow2 k \<le> \<bar>x\<bar>" and "\<bar>x\<bar> < pow2 (k + 1)" and "- 1022 \<le> k"
    and "of_int m - 1 / 2 < x / pow2 (k - 52)" and "x / pow2 (k - 52) < of_int m + 1 / 2"
    and "\<bar>pow2 (k - 52) * of_int m\<bar> < 2 ^ 1024"
  shows "round_to_double x = Finite (pow2 (k - 52) * of_int m)"
proof -
  from assms(1) pow2_pos[of k] have nz: "x \<noteq> 0" by auto
  have e: "max \<lfloor>log 2 \<bar>x\<bar>\<rfloor> (- 1022) = k"
    using floor_log2[OF assms(1,2)] assms(3) by simp
  have r: "round_half_even (x / pow2 (k - 52)) = m"
    by (rule round_half_even_eq) (rule assms)+
  show ?thesis
    using nz assms(6) by (simp add: round_to_double_def e r Let_def)
qed

lemma double_09: "float_of_literal (9 / 10) = Finite (8106479329266893 / 9007199254740992)"
  unfolding float_of_literal_def
  using round_to_double_eval[of "- 1" "9 / 10" 8106479329266893]
  by (simp add: pow2_def)

lemma double_09_times_100:
  "float_times_100 (Finite (8106479329266893 / 9007199254740992)) = Finite 90"
  using round_to_double_eval[of 6 "8106479329266893 / 9007199254740992 * 100" 6333186975989760]
  by (simp add: pow2_def)

lemma double_03: "float_of_literal (3 / 10) = Finite (5404319552844595 / 18014398509481984)"
  unfolding float_of_literal_def
  using round_to_double_eval[of "- 2" "3 / 10" 5404319552844595]
  by (simp add: pow2_def)

lemma double_03_times_100:
  "float_times_100 (Finite (5404319552844595 / 18014398509481984)) = Finite 30"
  using round_to_double_eval[of 4 "5404319552844595 / 18014398509481984 * 100" 8444249301319680]
  by (simp add: pow2_def)

lemma double_029: "float_of_literal (29 / 100) = Finite (5224175567749775 / 18014398509481984)"
  unfolding float_of_literal_def
  using round_to_double_eval[of "- 2" "29 / 100" 5224175567749775]
  by (simp add: pow2_def)

lemma double_029_times_100:
  "float_times_100 (Finite (5224175567749775 / 18014398509481984))
     = Finite (8162774324609023 / 281474976710656)"
  using round_to_double_eval[of 4 "5224175567749775 / 18014398509481984 * 100" 8162774324609023]
  by (simp add: pow2_def)

lemma double_15_16: "float_of_literal (15 / 16) = Finite (15 / 16)"
  unfolding float_of_literal_def
  using round_to_double_eval[of "- 1" "15 / 16" 8444249301319680]
  by (simp add: pow2_def)

lemma double_15_16_times_100: "float_times_100 (Finite (15 / 16)) = Finite (375 / 4)"
  using round_to_double_eval[of 6 "15 / 16 * 100" 6597069766656000]
  by (simp add: pow2_def)

lemma trunc_values:
  "py_trunc 90 = 90" "py_trunc 30 = 30" "py_trunc (375 / 4) = 93"
  "py_trunc (8162774324609023 / 281474976710656) = 28"
  by (simp_all add: py_trunc_def floor_eq_iff)

section \<open>Sample runs\<close>

text \<open>The exit paths of \<^verbatim>\<open>_run_lighthouse\<close>, one world each.\<close>

lemma run_lighthouse_calm:
  "run_lighthouse calm_world url = (Inr sample_report, None)"
  by (simp add: run_lighthouse_def lighthouse_try_def standalone_attempt_def output_ready_def
      read_output_def run_except_def
      calm_world_def)

lemma run_lighthouse_perfect:
  "run_lighthouse perfect_world url = (Inr perfect_report, None)"
  by (simp add: run_lighthouse_def lighthouse_try_def standalone_attempt_def output_ready_def
      read_output_def run_except_def
      perfect_world_def calm_world_def)

lemma run_lighthouse_timeout:
  "run_lighthouse timeout_world url = (Inr JNull, None)"
  by (simp add: run_lighthouse_def lighthouse_try_def standalone_attempt_def output_ready_def
      read_output_def run_except_def
      timeout_world_def calm_world_def)

lemma run_lighthouse_empty_output:
  "run_lighthouse empty_output_world url = (Inr JNull, None)"
  by (simp add: run_lighthouse_def lighthouse_try_def standalone_attempt_def output_ready_def
      read_output_def run_except_def
      empty_output_world_def calm_world_def)

lemma run_lighthouse_missing_output:
  "run_lighthouse missing_output_world url = (Inr JNull, None)"
  by (simp add: run_lighthouse_def lighthouse_try_def standalone_attempt_def output_ready_def
      read_output_def run_except_def
      missing_output_world_def calm_world_def)

lemma run_lighthouse_bad_json:
  "run_lighthouse bad_json_world url = (Inr JNull, None)"
  by (simp add: run_lighthouse_def lighthouse_try_def standalone_attempt_def output_ready_def
      read_output_def run_except_def
      bad_json_world_def calm_world_def)

lemma run_lighthouse_closed_stdout:
  "run_lighthouse closed_stdout_world url = (Inl (Exn ValueError ''I/O operation on closed file.''), None)"
  by (simp add: run_lighthouse_def lighthouse_try_def standalone_attempt_def output_ready_def
      read_output_def run_except_def
      closed_stdout_world_def timeout_world_def calm_world_def)

lemma run_lighthouse_close_fails:
  "run_lighthouse close_fails_world url =
     (Inl (Exn OSError ''[Errno 5] Input/output error''), Some [])"
  by (simp add: run_lighthouse_def close_fails_world_def calm_world_def)

text \<open>Runs of the stages and of \<^verbatim>\<open>analyze_website\<close> in these worlds.\<close>

lemma calm_page_lower:
  "str_lower (resp_text plain_page) =
     ''<html><title>shop</title><meta name=viewport><img src=a.png></html>''"
  by code_simp

lemma calm_page_text:
  "sublist ''viewport'' ''<html><title>shop</title><meta name=viewport><img src=a.png></html>''"
  by code_simp

lemma plain_basics:
  assumes "requests_get_probe w = (\<lambda>u. Inr plain_page)"
    and "urlparse_netloc w = (\<lambda>u. Inr ''example.com'')"
  shows "check_website_basics w ''https://example.com'' initial_results =
     \<lparr>performance_score = 0, seo_score = 0, accessibility_score = 0,
      best_practices_score = 0, has_ssl = True, has_mobile_viewport = True,
      issues = [], priority = None\<rparr>"
  by (simp add: check_website_basics_def check_ssl_def check_page_def assms
      plain_page_def calm_page_lower[unfolded plain_page_def, simplified] calm_page_text
      initial_results_def)

lemma calm_basics:
  "check_website_basics calm_world ''https://example.com'' initial_results =
     \<lparr>performance_score = 0, seo_score = 0, accessibility_score = 0,
      best_practices_score = 0, has_ssl = True, has_mobile_viewport = True,
      issues = [], priority = None\<rparr>"
  by (simp add: check_website_basics_def check_ssl_def check_page_def calm_world_def
      plain_page_def calm_page_lower[unfolded plain_page_def, simplified] calm_page_text
      initial_results_def)

lemma timeout_basics:
  "check_website_basics timeout_world ''https://example.com'' initial_results =
     \<lparr>performance_score = 0, seo_score = 0, accessibility_score = 0,
      best_practices_score = 0, has_ssl = True, has_mobile_viewport = True,
      issues = [], priority = None\<rparr>"
  by (simp add: check_website_basics_def check_ssl_def check_page_def timeout_world_def
      calm_world_def plain_page_def calm_page_lower[unfolded plain_page_def, simplified]
      calm_page_text initial_results_def)

lemma timeout_fallback_performance:
  "performance_score (perform_basic_analysis timeout_world ''https://example.com'' r) = 70"
  by (simp add: perform_basic_analysis_def check_best_practices_def check_accessibility_def
      check_seo_def check_performance_def Let_def timeout_world_def calm_world_def
      plain_page_def)

lemma example_scheme: "ensure_scheme ''example.com'' = ''https://example.com''"
  by (simp add: ensure_scheme_def)

lemma timeout_analysis:
  "analyze_website timeout_world with_lighthouse ''example.com'' =
     (Inr \<lparr>performance_score = 0, seo_score = 0, accessibility_score = 0,
           best_practices_score = 0, has_ssl = True, has_mobile_viewport = True,
           issues = [], priority = Some 2\<rparr>, None)"
  by (simp add: analyze_website_def example_scheme with_lighthouse_def run_lighthouse_timeout
      timeout_basics set_priority_def calculate_priority_zero_scores marker_def)

lemma perfect_normalized:
  "process_lighthouse_results perfect_world perfect_report
     \<lparr>performance_score = 0, seo_score = 0, accessibility_score = 0,
      best_practices_score = 0, has_ssl = True, has_mobile_viewport = True,
      issues = [], priority = None\<rparr> =
     \<lparr>performance_score = 100, seo_score = 100, accessibility_score = 100,
      best_practices_score = 100, has_ssl = True, has_mobile_viewport = True,
      issues = [], priority = None\<rparr>"
  by (simp add: process_lighthouse_results_def perfect_report_def category_steps_def
      score_step_def category_score_def and_then_def audit_steps_def audit_step_def)

lemma perfect_analysis:
  "analyze_website perfect_world with_lighthouse ''example.com'' =
     (Inr \<lparr>performance_score = 100, seo_score = 100, accessibility_score = 100,
           best_practices_score = 100, has_ssl = True, has_mobile_viewport = True,
           issues = [], priority = Some 3\<rparr>, None)"
proof -
  have b: "check_website_basics perfect_world ''https://example.com'' initial_results =
     \<lparr>performance_score = 0, seo_score = 0, accessibility_score = 0,
      best_practices_score = 0, has_ssl = True, has_mobile_viewport = True,
      issues = [], priority = None\<rparr>"
    by (rule plain_basics) (simp_all add: perfect_world_def calm_world_def)
  have t: "truthy perfect_report"
    by (simp add: perfect_report_def)
  have p: "calculate_priority
     \<lparr>performance_score = 100, seo_score = 100, accessibility_score = 100,
      best_practices_score = 100, has_ssl = True, has_mobile_viewport = True,
      issues = [], priority = None\<rparr> = Inr 3"
    by (simp add: calculate_priority_def no_overflow_small marker_def)
  show ?thesis
    by (simp add: analyze_website_def example_scheme with_lighthouse_def
        run_lighthouse_perfect b t perfect_normalized set_priority_def p)
qed

lemma tidy_world_fields:
  "requests_head tidy_world = (\<lambda>u. Inr 200)"
  "requests_get_probe tidy_world = (\<lambda>u. Inr tidy_page)"
  "requests_get_fallback tidy_world = (\<lambda>u. Inr tidy_page)"
  "urlparse_netloc tidy_world = (\<lambda>u. Inr ''example.com'')"
  by (simp_all add: tidy_world_def calm_world_def)

lemma tidy_page_fields:
  "status_code tidy_page = 200"
  "resp_url tidy_page = ''http://example.com/''"
  "content_length tidy_page = 48"
  by (simp_all add: tidy_page_def)

lemma tidy_page_lower:
  "str_lower (resp_text tidy_page) = ''<html><title>shop</title><meta content=x></html>''"
  by code_simp

lemma tidy_page_text:
  "\<not> sublist ''viewport'' ''<html><title>shop</title><meta content=x></html>''"
  "sublist ''<title>'' ''<html><title>shop</title><meta content=x></html>''"
  "\<not> sublist ''<title></title>'' ''<html><title>shop</title><meta content=x></html>''"
  "sublist ''meta content='' ''<html><title>shop</title><meta content=x></html>''"
  "\<not> sublist ''<img '' ''<html><title>shop</title><meta content=x></html>''"
  by code_simp+

lemma tidy_page_headers:
  "filter (\<lambda>h. \<not> header_in h (headers tidy_page)) security_headers = []"
  by code_simp

lemma tidy_basics:
  "check_website_basics tidy_world ''http://example.com'' initial_results =
     \<lparr>performance_score = 0, seo_score = 0, accessibility_score = 0,
      best_practices_score = 0, has_ssl = False, has_mobile_viewport = False,
      issues = [''Website does not use SSL (https)'',
                ''HTTPS is available but not used by default'',
                ''No mobile viewport meta tag found''],
      priority = None\<rparr>"
  by (simp add: check_website_basics_def check_ssl_def check_page_def tidy_world_fields
      tidy_page_fields tidy_page_lower tidy_page_text initial_results_def append_issue_def)

lemma tidy_fallback:
  "perform_basic_analysis tidy_world ''http://example.com''
     \<lparr>performance_score = 0, seo_score = 0, accessibility_score = 0,
      best_practices_score = 0, has_ssl = False, has_mobile_viewport = False,
      issues = xs, priority = None\<rparr> =
     \<lparr>performance_score = 70, seo_score = 60, accessibility_score = 50,
      best_practices_score = 60, has_ssl = False, has_mobile_viewport = False,
      issues = xs, priority = None\<rparr>"
  by (simp add: perform_basic_analysis_def check_best_practices_def check_accessibility_def
      check_seo_def check_performance_def tidy_world_fields tidy_page_fields tidy_page_lower
      tidy_page_text tidy_page_headers)

lemma tidy_priority:
  "calculate_priority
     \<lparr>performance_score = 70, seo_score = 60, accessibility_score = 50,
      best_practices_score = 60, has_ssl = False, has_mobile_viewport = False,
      issues = [''Website does not use SSL (https)'',
                ''HTTPS is available but not used by default'',
                ''No mobile viewport meta tag found'',
                ''Lighthouse not available for detailed analysis''],
      priority = None\<rparr> = Inr 2"
proof -
  have "\<not> sublist marker (join '' '' [''Website does not use SSL (https)'',
                ''HTTPS is available but not used by default'',
                ''No mobile viewport meta tag found'',
                ''Lighthouse not available for detailed analysis''])"
    by code_simp
  then show ?thesis
    by (simp add: calculate_priority_def no_overflow_small)
qed

lemma tidy_analysis:
  "analyze_website tidy_world without_lighthouse ''http://example.com'' =
     (Inr \<lparr>performance_score = 70, seo_score = 60, accessibility_score = 50,
           best_practices_score = 60, has_ssl = False, has_mobile_viewport = False,
           issues = [''Website does not use SSL (https)'',
                     ''HTTPS is available but not used by default'',
                     ''No mobile viewport meta tag found'',
                     ''Lighthouse not available for detailed analysis''],
           priority = Some 2\<rparr>, None)"
proof -
  have "ensure_scheme ''http://example.com'' = ''http://example.com''"
    by (simp add: ensure_scheme_def)
  then show ?thesis
    by (simp add: analyze_website_def without_lighthouse_def tidy_basics append_issue_def
        tidy_fallback set_priority_def tidy_priority)
qed

lemma offline_analysis:
  "analyze_website offline_world without_lighthouse ''example.com'' =
     (Inr \<lparr>performance_score = 0, seo_score = 0, accessibility_score = 0,
           best_practices_score = 0, has_ssl = True, has_mobile_viewport = False,
           issues = [''Error accessing website: Connection refused'',
                     ''Lighthouse not available for detailed analysis'',
                     ''Error during basic analysis: Connection refused''],
           priority = Some 1\<rparr>, None)"
proof -
  have b: "check_website_basics offline_world ''https://example.com'' initial_results =
     \<lparr>performance_score = 0, seo_score = 0, accessibility_score = 0,
      best_practices_score = 0, has_ssl = True, has_mobile_viewport = False,
      issues = [''Error accessing website: Connection refused''], priority = None\<rparr>"
    by (simp add: check_website_basics_def check_ssl_def basics_except_def offline_world_def
        calm_world_def initial_results_def append_issue_def)
  have m: "sublist marker (join '' '' [''Error accessing website: Connection refused'',
                     ''Lighthouse not available for detailed analysis'',
                     ''Error during basic analysis: Connection refused''])"
    by code_simp
  have p: "calculate_priority
     \<lparr>performance_score = 0, seo_score = 0, accessibility_score = 0,
      best_practices_score = 0, has_ssl = True, has_mobile_viewport = False,
      issues = [''Error accessing website: Connection refused'',
                ''Lighthouse not available for detailed analysis'',
                ''Error during basic analysis: Connection refused''],
      priority = None\<rparr> = Inr 1"
    using m by (simp add: calculate_priority_def)
  have f: "requests_get_fallback offline_world =
             (\<lambda>u. Inl (Exn RequestException ''Connection refused''))"
    by (simp add: offline_world_def calm_world_def)
  show ?thesis
    by (simp add: analyze_website_def example_scheme without_lighthouse_def b
        perform_basic_analysis_def f append_issue_def set_priority_def p)
qed

section \<open>The temporary file\<close>

lemma run_lighthouse_file:
  "snd (run_lighthouse w url) = None
   \<or> (\<exists>e. fst (run_lighthouse w url) = Inl e
            \<and> (close_error w = Some e \<or> unlink_error w = Some e))"
  by (auto simp: run_lighthouse_def Let_def split: option.splits prod.splits)

lemma analyze_website_file_lighthouse:
  assumes "analyze_website w self url0 = (Inr r, f)"
  shows "f = None"
proof (cases "url0 = [] \<or> \<not> lighthouse_available self")
  case True
  with assms show ?thesis
    by (auto simp: analyze_website_def set_priority_def Let_def split: sum.splits if_splits)
next
  case False
  obtain x g where rl: "run_lighthouse w (ensure_scheme url0) = (x, g)"
    by (cases "run_lighthouse w (ensure_scheme url0)")
  with assms False have "f = g" and "\<exists>d. x = Inr d"
    by (auto simp: analyze_website_def set_priority_def Let_def split: sum.splits if_splits)
  with run_lighthouse_file[of w "ensure_scheme url0"] rl show ?thesis by auto
qed

text \<open>
  C6. Whenever \<^verbatim>\<open>_run_lighthouse\<close> returns, with a report or with \<^verbatim>\<open>None\<close>, the temporary
  output file does not exist. After the call the file can only exist when \<^verbatim>\<open>os.close\<close> or
  \<^verbatim>\<open>os.unlink\<close> itself raised, and then that exception has left the function, which has
  not returned. Hence the file does not exist either after \<^verbatim>\<open>analyze_website\<close> has
  returned.
\<close>

theorem temporary_file_removed:
  "(fst (run_lighthouse w url) = Inr d \<longrightarrow> snd (run_lighthouse w url) = None)
   \<and> (snd (run_lighthouse w url) = None
        \<or> (\<exists>e. fst (run_lighthouse w url) = Inl e
                 \<and> (close_error w = Some e \<or> unlink_error w = Some e)))
   \<and> (analyze_website w self url0 = (Inr r, f) \<longrightarrow> f = None)"
  using run_lighthouse_file[of w url] analyze_website_file_lighthouse[of w self url0 r f]
  by auto

text \<open>
  The exit paths of \<^verbatim>\<open>_run_lighthouse\<close>: a parsed report, a timeout after a partial write,
  an empty output, a missing output, an output that does not parse, and an exception of
  the \<^verbatim>\<open>print\<close> of a handler, which leaves the function after the file is deleted. Two
  calls of \<^verbatim>\<open>analyze_website\<close> on a non-empty URL with the tool available: one with a
  timeout, one with a parsed report. Last, the world in which \<^verbatim>\<open>os.close\<close> raises: the
  function does not return and the empty file stays.
\<close>

theorem temporary_file_removed_witness:
  "run_lighthouse calm_world ''https://example.com'' = (Inr sample_report, None)
   \<and> run_lighthouse timeout_world ''https://example.com'' = (Inr JNull, None)
   \<and> run_lighthouse empty_output_world ''https://example.com'' = (Inr JNull, None)
   \<and> run_lighthouse missing_output_world ''https://example.com'' = (Inr JNull, None)
   \<and> run_lighthouse bad_json_world ''https://example.com'' = (Inr JNull, None)
   \<and> run_lighthouse closed_stdout_world ''https://example.com''
       = (Inl (Exn ValueError ''I/O operation on closed file.''), None)
   \<and> analyze_website timeout_world with_lighthouse ''example.com'' =
       (Inr \<lparr>performance_score = 0, seo_score = 0, accessibility_score = 0,
             best_practices_score = 0, has_ssl = True, has_mobile_viewport = True,
             issues = [], priority = Some 2\<rparr>, None)
   \<and> analyze_website perfect_world with_lighthouse ''example.com'' =
       (Inr \<lparr>performance_score = 100, seo_score = 100, accessibility_score = 100,
             best_practices_score = 100, has_ssl = True, has_mobile_viewport = True,
             issues = [], priority = Some 3\<rparr>, None)
   \<and> run_lighthouse close_fails_world ''https://example.com''
       = (Inl (Exn OSError ''[Errno 5] Input/output error''), Some [])
   \<and> close_error close_fails_world = Some (Exn OSError ''[Errno 5] Input/output error'')"
proof -
  let ?u = "''https://example.com''"
  have fst_calm: "fst (run_lighthouse calm_world ?u) = Inr sample_report"
    and fst_timeout: "fst (run_lighthouse timeout_world ?u) = Inr JNull"
    and fst_empty: "fst (run_lighthouse empty_output_world ?u) = Inr JNull"
    and fst_missing: "fst (run_lighthouse missing_output_world ?u) = Inr JNull"
    and fst_bad: "fst (run_lighthouse bad_json_world ?u) = Inr JNull"
    by (simp_all add: run_lighthouse_calm run_lighthouse_timeout run_lighthouse_empty_output
        run_lighthouse_missing_output run_lighthouse_bad_json)
  have a: "run_lighthouse calm_world ?u = (Inr sample_report, None)"
    using temporary_file_removed[of calm_world ?u sample_report] fst_calm
    by (simp add: prod_eq_iff)
  have b: "run_lighthouse timeout_world ?u = (Inr JNull, None)"
    using temporary_file_removed[of timeout_world ?u JNull] fst_timeout
    by (simp add: prod_eq_iff)
  have c: "run_lighthouse empty_output_world ?u = (Inr JNull, None)"
    using temporary_file_removed[of empty_output_world ?u JNull] fst_empty
    by (simp add: prod_eq_iff)
  have d: "run_lighthouse missing_output_world ?u = (Inr JNull, None)"
    using temporary_file_removed[of missing_output_world ?u JNull] fst_missing
    by (simp add: prod_eq_iff)
  have e: "run_lighthouse bad_json_world ?u = (Inr JNull, None)"
    using temporary_file_removed[of bad_json_world ?u JNull] fst_bad
    by (simp add: prod_eq_iff)
  have fst_closed: "fst (run_lighthouse closed_stdout_world ?u)
                      = Inl (Exn ValueError ''I/O operation on closed file.'')"
    by (simp add: run_lighthouse_closed_stdout)
  have errors_closed: "close_error closed_stdout_world = None"
    "unlink_error closed_stdout_world = None"
    by (simp_all add: closed_stdout_world_def timeout_world_def calm_world_def)
  have g: "run_lighthouse closed_stdout_world ?u
             = (Inl (Exn ValueError ''I/O operation on closed file.''), None)"
    using temporary_file_removed[of closed_stdout_world ?u] fst_closed errors_closed
    by (simp add: prod_eq_iff)
  have h: "close_error close_fails_world = Some (Exn OSError ''[Errno 5] Input/output error'')"
    by (simp add: close_fails_world_def calm_world_def)
  show ?thesis
    using a b c d e g h timeout_analysis perfect_analysis run_lighthouse_close_fails
    by simp
qed

section \<open>The pipeline as a whole\<close>

lemma analyze_website_fallback:
  assumes "url0 \<noteq> []" and "\<not> lighthouse_available self"
  shows "\<exists>p. calculate_priority
              (perform_basic_analysis w (ensure_scheme url0)
                (append_issue unavailable_issue
                  (check_website_basics w (ensure_scheme url0) initial_results))) = Inr p
           \<and> analyze_website w self url0 =
               (Inr ((perform_basic_analysis w (ensure_scheme url0)
                       (append_issue unavailable_issue
                         (check_website_basics w (ensure_scheme url0) initial_results)))
                     \<lparr>priority := Some p\<rparr>), None)"
proof -
  let ?b = "append_issue unavailable_issue
              (check_website_basics w (ensure_scheme url0) initial_results)"
  have "\<exists>p. calculate_priority (perform_basic_analysis w (ensure_scheme url0) ?b) = Inr p"
    by (rule fallback_priority_defined)
      (simp_all add: check_website_basics_scores initial_results_def)
  then obtain p where
    p: "calculate_priority (perform_basic_analysis w (ensure_scheme url0) ?b) = Inr p" ..
  with assms show ?thesis
    by (simp add: analyze_website_def set_priority_def Let_def unavailable_issue_def)
qed

lemma analyze_website_no_report:
  assumes "url0 \<noteq> []" and "lighthouse_available self"
    and "run_lighthouse w (ensure_scheme url0) = (Inr d, f)" and "\<not> truthy d"
  shows "\<exists>p. calculate_priority (check_website_basics w (ensure_scheme url0) initial_results)
               = Inr p
           \<and> analyze_website w self url0 =
               (Inr ((check_website_basics w (ensure_scheme url0) initial_results)
                     \<lparr>priority := Some p\<rparr>), f)"
proof -
  let ?b = "check_website_basics w (ensure_scheme url0) initial_results"
  have "\<exists>p. calculate_priority ?b = Inr p"
    by (rule calculate_priority_bounded)
      (simp add: check_website_basics_scores initial_results_def)
  then obtain p where p: "calculate_priority ?b = Inr p" ..
  with assms show ?thesis
    by (simp add: analyze_website_def set_priority_def Let_def)
qed

text \<open>
  The exceptions that can leave \<^verbatim>\<open>analyze_website\<close>: those of \<^verbatim>\<open>mkstemp\<close>, of \<^verbatim>\<open>os.close\<close>
  and of \<^verbatim>\<open>os.unlink\<close>, those of the \<^verbatim>\<open>print\<close> of the two handlers of \<^verbatim>\<open>_run_lighthouse\<close>, and
  the overflow of the mean of out-of-range scores; all of them need the tool to be
  available.
\<close>

lemma run_lighthouse_escapes:
  assumes "fst (run_lighthouse w url) = Inl e"
  shows "mkstemp_error w = Some e \<or> close_error w = Some e \<or> unlink_error w = Some e
         \<or> print_error w TimedOut = Some e \<or> print_error w RunFailed = Some e"
  using assms
  by (auto simp: run_lighthouse_def run_except_def Let_def
      split: option.splits prod.splits sum.splits if_splits)

lemma analyze_website_escapes:
  assumes "fst (analyze_website w self url0) = Inl e"
  shows "url0 \<noteq> [] \<and> lighthouse_available self
         \<and> (mkstemp_error w = Some e \<or> close_error w = Some e \<or> unlink_error w = Some e
              \<or> print_error w TimedOut = Some e \<or> print_error w RunFailed = Some e
              \<or> exn_class_of e = OverflowError)"
proof (cases "url0 = []")
  case True
  with assms show ?thesis by (simp add: analyze_website_def)
next
  case nonempty: False
  show ?thesis
  proof (cases "lighthouse_available self")
    case False
    from analyze_website_fallback[OF nonempty False, of w] assms show ?thesis by auto
  next
    case True
    obtain x g where rl: "run_lighthouse w (ensure_scheme url0) = (x, g)"
      by (cases "run_lighthouse w (ensure_scheme url0)")
    show ?thesis
    proof (cases x)
      case (Inl e')
      with assms nonempty True rl have "e' = e" by (simp add: analyze_website_def Let_def)
      with Inl rl have "fst (run_lighthouse w (ensure_scheme url0)) = Inl e" by simp
      from run_lighthouse_escapes[OF this] nonempty True show ?thesis by blast
    next
      case (Inr d)
      with assms nonempty True rl have "\<exists>r0 f0. fst (set_priority r0 f0) = Inl e"
        by (auto simp: analyze_website_def Let_def split: if_splits)
      then have "exn_class_of e = OverflowError"
        by (auto simp: set_priority_def calculate_priority_def Let_def
            split: sum.splits if_splits)
      with nonempty True show ?thesis by blast
    qed
  qed
qed

text \<open>
  C7. Every stage of the pipeline leaves the issue list it receives as a prefix of the
  list it returns: appending one issue, the basic probe, the normalizer, the fallback
  analyzer; setting the priority does not touch the list. In the result of
  \<^verbatim>\<open>analyze_website\<close> the issues of the basic probe come first, in their order, followed on
  the fallback path by the issue that Lighthouse is not available.
\<close>

theorem issues_only_grow:
  "prefix (issues r) (issues (append_issue s r))
   \<and> prefix (issues r) (issues (check_website_basics w url r))
   \<and> prefix (issues r) (issues (process_lighthouse_results w d r))
   \<and> prefix (issues r) (issues (perform_basic_analysis w url r))
   \<and> (set_priority r f = (Inr r', f') \<longrightarrow> issues r' = issues r)
   \<and> (url0 \<noteq> [] \<longrightarrow> analyze_website w self url0 = (Inr final, g) \<longrightarrow>
        prefix (issues (check_website_basics w (ensure_scheme url0) initial_results)
                @ (if lighthouse_available self then [] else [unavailable_issue]))
          (issues final))"
proof -
  let ?b = "check_website_basics w (ensure_scheme url0) initial_results"
  have final: "prefix (issues ?b @ (if lighthouse_available self then [] else [unavailable_issue]))
          (issues final)"
    if nonempty: "url0 \<noteq> []" and ret: "analyze_website w self url0 = (Inr final, g)"
  proof (cases "lighthouse_available self")
    case False
    from analyze_website_fallback[OF nonempty False, of w] ret
    have "issues final =
            issues (perform_basic_analysis w (ensure_scheme url0)
                     (append_issue unavailable_issue ?b))"
      by auto
    moreover have "prefix (issues (append_issue unavailable_issue ?b))
            (issues (perform_basic_analysis w (ensure_scheme url0)
                      (append_issue unavailable_issue ?b)))"
      by (rule perform_basic_analysis_grows)
    ultimately show ?thesis using False by simp
  next
    case True
    obtain x h where rl: "run_lighthouse w (ensure_scheme url0) = (x, h)"
      by (cases "run_lighthouse w (ensure_scheme url0)")
    from ret nonempty True rl obtain dd where x: "x = Inr dd"
      by (cases x) (auto simp: analyze_website_def Let_def)
    have "issues final = issues ?b
          \<or> issues final = issues (process_lighthouse_results w dd ?b)"
      using ret nonempty True rl x
      by (auto simp: analyze_website_def Let_def dest: set_priority_issues split: if_splits)
    with process_lighthouse_results_grows[of ?b w dd] show ?thesis
      using True by auto
  qed
  show ?thesis
    using check_website_basics_grows[of r w url] process_lighthouse_results_grows[of r w d]
      perform_basic_analysis_grows[of r w url] set_priority_issues[of r f r' f'] final
    by simp
qed

theorem issues_only_grow_witness:
  "set_priority initial_results None = (Inr (initial_results\<lparr>priority := Some 2\<rparr>), None)
   \<and> issues (initial_results\<lparr>priority := Some 2\<rparr>) = issues initial_results
   \<and> analyze_website tidy_world without_lighthouse ''http://example.com'' =
     (Inr \<lparr>performance_score = 70, seo_score = 60, accessibility_score = 50,
           best_practices_score = 60, has_ssl = False, has_mobile_viewport = False,
           issues = [''Website does not use SSL (https)'',
                     ''HTTPS is available but not used by default'',
                     ''No mobile viewport meta tag found'',
                     ''Lighthouse not available for detailed analysis''],
           priority = Some 2\<rparr>, None)
   \<and> prefix (issues (check_website_basics tidy_world (ensure_scheme ''http://example.com'')
                       initial_results) @ [unavailable_issue])
        [''Website does not use SSL (https)'',
         ''HTTPS is available but not used by default'',
         ''No mobile viewport meta tag found'',
         ''Lighthouse not available for detailed analysis'']"
proof -
  have a: "set_priority initial_results None =
             (Inr (initial_results\<lparr>priority := Some 2\<rparr>), None)"
    by (simp add: set_priority_def calculate_priority_zero_scores initial_results_def
        marker_def)
  have b: "\<not> lighthouse_available without_lighthouse"
    by (simp add: without_lighthouse_def)
  show ?thesis
    using a b tidy_analysis
      issues_only_grow[of initial_results _ tidy_world _ _ None
        "initial_results\<lparr>priority := Some 2\<rparr>" None "''http://example.com''"
        without_lighthouse
        "\<lparr>performance_score = 70, seo_score = 60, accessibility_score = 50,
           best_practices_score = 60, has_ssl = False, has_mobile_viewport = False,
           issues = [''Website does not use SSL (https)'',
                     ''HTTPS is available but not used by default'',
                     ''No mobile viewport meta tag found'',
                     ''Lighthouse not available for detailed analysis''],
           priority = Some 2\<rparr>" None]
    by simp
qed

section \<open>When the fallback analyzer runs\<close>

text \<open>Only the fallback analyzer reads the fallback's fetch: every other stage is the same
  in a world that differs in that fetch alone.\<close>

lemma other_fetch_raise: "raise (w\<lparr>requests_get_fallback := g\<rparr>) c v = (raise w c v :: exn + 'a)"
  by (simp add: raise_def)

lemma other_fetch_get:
  "py_get (w\<lparr>requests_get_fallback := g\<rparr>) v key dflt = py_get w v key dflt"
  by (cases v) (simp_all add: raise_def)

lemma other_fetch_in: "py_in (w\<lparr>requests_get_fallback := g\<rparr>) key v = py_in w key v"
  by (cases v) (simp_all add: raise_def)

lemma other_fetch_getitem:
  "py_getitem (w\<lparr>requests_get_fallback := g\<rparr>) v key = py_getitem w v key"
  by (cases v) (simp_all add: raise_def)

lemma other_fetch_times:
  "py_times_100 (w\<lparr>requests_get_fallback := g\<rparr>) v = py_times_100 w v"
  by (cases v) (simp_all add: raise_def)

lemma other_fetch_lt_half:
  "py_lt_half (w\<lparr>requests_get_fallback := g\<rparr>) v = py_lt_half w v"
proof (cases v)
  case (JFloat x)
  then show ?thesis by (cases x) simp_all
qed (simp_all add: raise_def)

lemma other_fetch_int: "py_int (w\<lparr>requests_get_fallback := g\<rparr>) v = py_int w v"
proof (cases v)
  case (JFloat x)
  then show ?thesis by (cases x) (simp_all add: raise_def)
qed (simp_all add: raise_def)

lemma other_fetch_str: "py_str (w\<lparr>requests_get_fallback := g\<rparr>) v = py_str w v"
  by (cases v) simp_all

lemmas other_fetch_values = other_fetch_get other_fetch_in other_fetch_getitem
  other_fetch_times other_fetch_lt_half other_fetch_int other_fetch_str

lemma other_fetch_score_step:
  "score_step (w\<lparr>requests_get_fallback := g\<rparr>) categories name assign
     = score_step w categories name assign"
proof -
  have int: "py_int (w\<lparr>requests_get_fallback := g\<rparr>) = py_int w"
    by (rule ext) (rule other_fetch_int)
  show ?thesis
    by (simp add: fun_eq_iff score_step_def category_score_def other_fetch_values int
        cong: if_cong)
qed

lemma other_fetch_message:
  "with_display_value (w\<lparr>requests_get_fallback := g\<rparr>) label = with_display_value w label"
  by (simp add: fun_eq_iff with_display_value_def other_fetch_values)

lemma other_fetch_audit_step:
  "audit_step (w\<lparr>requests_get_fallback := g\<rparr>) audits name message
     = audit_step w audits name message"
  by (simp add: fun_eq_iff audit_step_def other_fetch_values cong: if_cong)

lemma other_fetch_normalizer:
  "process_lighthouse_results (w\<lparr>requests_get_fallback := g\<rparr>) d r
     = process_lighthouse_results w d r"
proof -
  have "category_steps (w\<lparr>requests_get_fallback := g\<rparr>) = category_steps w"
    by (simp add: fun_eq_iff category_steps_def other_fetch_score_step)
  moreover have "audit_steps (w\<lparr>requests_get_fallback := g\<rparr>) = audit_steps w"
    by (simp add: fun_eq_iff audit_steps_def other_fetch_audit_step other_fetch_message)
  ultimately show ?thesis
    by (simp add: process_lighthouse_results_def other_fetch_get
        cong: sum.case_cong prod.case_cong option.case_cong)
qed


lemma other_fetch_ssl:
  "check_ssl (w\<lparr>requests_get_fallback := g\<rparr>) url r = check_ssl w url r"
  by (simp add: check_ssl_def
      cong: if_cong sum.case_cong option.case_cong prod.case_cong)

lemma other_fetch_page:
  "check_page (w\<lparr>requests_get_fallback := g\<rparr>) url resp r = check_page w url resp r"
  by (simp add: check_page_def
      cong: if_cong sum.case_cong option.case_cong prod.case_cong)

lemma other_fetch_basics:
  "check_website_basics (w\<lparr>requests_get_fallback := g\<rparr>) url r
     = check_website_basics w url r"
  by (simp add: check_website_basics_def other_fetch_ssl other_fetch_page
      cong: if_cong sum.case_cong option.case_cong prod.case_cong)

lemma other_fetch_chrome:
  "chrome_attempt (w\<lparr>requests_get_fallback := g\<rparr>) url f = chrome_attempt w url f"
  by (simp add: chrome_attempt_def
      cong: if_cong sum.case_cong option.case_cong prod.case_cong)

lemma other_fetch_standalone:
  "standalone_attempt (w\<lparr>requests_get_fallback := g\<rparr>) url f
     = standalone_attempt w url f"
  by (simp add: standalone_attempt_def
      cong: if_cong sum.case_cong option.case_cong prod.case_cong)

lemma other_fetch_read:
  "read_output (w\<lparr>requests_get_fallback := g\<rparr>) f = read_output w f"
  by (simp add: read_output_def
      cong: if_cong sum.case_cong option.case_cong prod.case_cong)

lemma other_fetch_except:
  "run_except (w\<lparr>requests_get_fallback := g\<rparr>) e = run_except w e"
  by (simp add: run_except_def
      cong: if_cong sum.case_cong option.case_cong prod.case_cong)

lemma other_fetch_try:
  "lighthouse_try (w\<lparr>requests_get_fallback := g\<rparr>) url f = lighthouse_try w url f"
  by (simp add: lighthouse_try_def other_fetch_chrome other_fetch_standalone other_fetch_read
      cong: if_cong sum.case_cong option.case_cong prod.case_cong)

lemma other_fetch_lighthouse:
  "run_lighthouse (w\<lparr>requests_get_fallback := g\<rparr>) url = run_lighthouse w url"
  by (simp add: run_lighthouse_def other_fetch_try other_fetch_except
      cong: if_cong sum.case_cong option.case_cong prod.case_cong)

lemma analyze_website_other_fetch:
  assumes "lighthouse_available self"
  shows "analyze_website (w\<lparr>requests_get_fallback := g\<rparr>) self url0
           = analyze_website w self url0"
  using assms
  by (simp add: analyze_website_def other_fetch_basics other_fetch_lighthouse
      other_fetch_normalizer
      cong: if_cong sum.case_cong option.case_cong prod.case_cong)

lemma analyze_website_report:
  assumes "url0 \<noteq> []" and "lighthouse_available self"
    and "run_lighthouse w (ensure_scheme url0) = (Inr d, f)" and "truthy d"
  shows "analyze_website w self url0 =
           set_priority (process_lighthouse_results w d
                          (check_website_basics w (ensure_scheme url0) initial_results)) f"
  using assms by (simp add: analyze_website_def Let_def)

lemma analyze_website_no_run:
  assumes "url0 \<noteq> []" and "lighthouse_available self"
    and "run_lighthouse w (ensure_scheme url0) = (Inl e, f)"
  shows "analyze_website w self url0 = (Inl e, f)"
  using assms by (simp add: analyze_website_def Let_def)

text \<open>
  C1 (as amended). The fallback analyzer runs exactly when the cached availability flag
  is false. With the flag false the result is the fallback's, on the probe's result
  extended with the issue that Lighthouse is not available, with the priority added;
  when the fallback's own fetch succeeds, the four scores are the ones its heuristics
  assign. With the flag true the fallback does not run, whatever \<^verbatim>\<open>_run_lighthouse\<close>
  yields: without a report the result is the basic probe's, the four scores still 0;
  with a report it is the normalizer's on the probe's result; an exception of
  \<^verbatim>\<open>_run_lighthouse\<close> leaves the function; and in every case the outcome is the same in a
  world where the fallback's fetch answers differently.
\<close>

theorem fallback_only_when_unavailable:
  assumes "url0 \<noteq> []"
  shows "(\<not> lighthouse_available self \<longrightarrow>
          (\<exists>p. analyze_website w self url0 =
                 (Inr ((perform_basic_analysis w (ensure_scheme url0)
                         (append_issue unavailable_issue
                           (check_website_basics w (ensure_scheme url0) initial_results)))
                       \<lparr>priority := Some p\<rparr>), None)))
       \<and> (\<not> lighthouse_available self \<longrightarrow>
            requests_get_fallback w (ensure_scheme url0) = Inr resp \<longrightarrow>
            (\<exists>r. analyze_website w self url0 = (Inr r, None)
               \<and> performance_score r \<in> {50, 70} \<and> seo_score r \<in> {40, 60}
               \<and> accessibility_score r \<in> {40, 50} \<and> best_practices_score r \<in> {40, 60}))
       \<and> (lighthouse_available self \<longrightarrow>
            run_lighthouse w (ensure_scheme url0) = (Inr d, f) \<longrightarrow> \<not> truthy d \<longrightarrow>
            (\<exists>r p. analyze_website w self url0 = (Inr r, f)
               \<and> r = (check_website_basics w (ensure_scheme url0) initial_results)
                       \<lparr>priority := Some p\<rparr>
               \<and> performance_score r = 0 \<and> seo_score r = 0
               \<and> accessibility_score r = 0 \<and> best_practices_score r = 0))
       \<and> (lighthouse_available self \<longrightarrow>
            run_lighthouse w (ensure_scheme url0) = (Inr d, f) \<longrightarrow> truthy d \<longrightarrow>
            analyze_website w self url0 =
              set_priority (process_lighthouse_results w d
                             (check_website_basics w (ensure_scheme url0) initial_results)) f)
       \<and> (lighthouse_available self \<longrightarrow>
            run_lighthouse w (ensure_scheme url0) = (Inl e, f) \<longrightarrow>
            analyze_website w self url0 = (Inl e, f))
       \<and> (lighthouse_available self \<longrightarrow>
            analyze_website (w\<lparr>requests_get_fallback := g\<rparr>) self url0 = analyze_website w self url0)"
proof (intro conjI impI)
  assume na: "\<not> lighthouse_available self"
  from analyze_website_fallback[OF assms na, of w]
  show "\<exists>p. analyze_website w self url0 =
                 (Inr ((perform_basic_analysis w (ensure_scheme url0)
                         (append_issue unavailable_issue
                           (check_website_basics w (ensure_scheme url0) initial_results)))
                       \<lparr>priority := Some p\<rparr>), None)"
    by blast
next
  assume na: "\<not> lighthouse_available self"
    and get: "requests_get_fallback w (ensure_scheme url0) = Inr resp"
  let ?a = "perform_basic_analysis w (ensure_scheme url0)
              (append_issue unavailable_issue
                (check_website_basics w (ensure_scheme url0) initial_results))"
  from analyze_website_fallback[OF assms na, of w] obtain p where
    "analyze_website w self url0 = (Inr (?a\<lparr>priority := Some p\<rparr>), None)"
    by blast
  with fallback_scores[OF get]
  show "\<exists>r. analyze_website w self url0 = (Inr r, None)
               \<and> performance_score r \<in> {50, 70} \<and> seo_score r \<in> {40, 60}
               \<and> accessibility_score r \<in> {40, 50} \<and> best_practices_score r \<in> {40, 60}"
    by (intro exI[of _ "?a\<lparr>priority := Some p\<rparr>"]) simp
next
  assume av: "lighthouse_available self"
    and rl: "run_lighthouse w (ensure_scheme url0) = (Inr d, f)" and nt: "\<not> truthy d"
  let ?b = "check_website_basics w (ensure_scheme url0) initial_results"
  from analyze_website_no_report[OF assms av rl nt] obtain p where
    "analyze_website w self url0 = (Inr (?b\<lparr>priority := Some p\<rparr>), f)"
    by blast
  then show "\<exists>r p. analyze_website w self url0 = (Inr r, f)
               \<and> r = ?b\<lparr>priority := Some p\<rparr>
               \<and> performance_score r = 0 \<and> seo_score r = 0
               \<and> accessibility_score r = 0 \<and> best_practices_score r = 0"
    by (intro exI[of _ "?b\<lparr>priority := Some p\<rparr>"] exI[of _ p])
      (simp add: check_website_basics_scores initial_results_def)
next
  assume "lighthouse_available self" "run_lighthouse w (ensure_scheme url0) = (Inr d, f)"
    "truthy d"
  from analyze_website_report[OF assms this]
  show "analyze_website w self url0 =
          set_priority (process_lighthouse_results w d
                         (check_website_basics w (ensure_scheme url0) initial_results)) f" .
next
  assume "lighthouse_available self" "run_lighthouse w (ensure_scheme url0) = (Inl e, f)"
  from analyze_website_no_run[OF assms this]
  show "analyze_website w self url0 = (Inl e, f)" .
next
  assume "lighthouse_available self"
  then show "analyze_website (w\<lparr>requests_get_fallback := g\<rparr>) self url0 = analyze_website w self url0"
    by (rule analyze_website_other_fetch)
qed

text \<open>
  The claim as stated fails where the tool is available and times out: no report is
  obtained, the result is returned with the four scores at 0, and the fallback analyzer,
  which on the same page would have set the performance score to 70, has not run.
\<close>

theorem fallback_only_when_unavailable_counterexample:
  "run_lighthouse timeout_world ''https://example.com'' = (Inr JNull, None)
   \<and> analyze_website timeout_world with_lighthouse ''example.com'' =
       (Inr \<lparr>performance_score = 0, seo_score = 0, accessibility_score = 0,
             best_practices_score = 0, has_ssl = True, has_mobile_viewport = True,
             issues = [], priority = Some 2\<rparr>, None)
   \<and> performance_score
         (perform_basic_analysis timeout_world ''https://example.com''
           (check_website_basics timeout_world ''https://example.com'' initial_results)) = 70"
  by (simp add: run_lighthouse_timeout timeout_analysis timeout_fallback_performance)

theorem fallback_only_when_unavailable_witness:
  "''example.com'' \<noteq> [] \<and> lighthouse_available with_lighthouse
   \<and> \<not> lighthouse_available without_lighthouse
   \<and> run_lighthouse timeout_world (ensure_scheme ''example.com'') = (Inr JNull, None)
   \<and> \<not> truthy JNull
   \<and> run_lighthouse perfect_world (ensure_scheme ''example.com'') = (Inr perfect_report, None)
   \<and> truthy perfect_report
   \<and> requests_get_fallback calm_world (ensure_scheme ''example.com'') = Inr plain_page
   \<and> (\<exists>r. analyze_website calm_world without_lighthouse ''example.com'' = (Inr r, None)
          \<and> performance_score r \<in> {50, 70} \<and> seo_score r \<in> {40, 60}
          \<and> accessibility_score r \<in> {40, 50} \<and> best_practices_score r \<in> {40, 60})
   \<and> (\<exists>r. analyze_website timeout_world with_lighthouse ''example.com'' = (Inr r, None)
          \<and> performance_score r = 0 \<and> seo_score r = 0
          \<and> accessibility_score r = 0 \<and> best_practices_score r = 0)
   \<and> analyze_website perfect_world with_lighthouse ''example.com'' =
       set_priority (process_lighthouse_results perfect_world perfect_report
                      (check_website_basics perfect_world (ensure_scheme ''example.com'')
                         initial_results)) None
   \<and> analyze_website perfect_world with_lighthouse ''example.com'' =
       (Inr \<lparr>performance_score = 100, seo_score = 100, accessibility_score = 100,
             best_practices_score = 100, has_ssl = True, has_mobile_viewport = True,
             issues = [], priority = Some 3\<rparr>, None)
   \<and> run_lighthouse full_disk_world (ensure_scheme ''example.com'')
       = (Inl (Exn OSError ''[Errno 28] No space left on device''), None)
   \<and> analyze_website (perfect_world\<lparr>requests_get_fallback := (\<lambda>u. Inr tidy_page)\<rparr>)
        with_lighthouse ''example.com''
       = analyze_website perfect_world with_lighthouse ''example.com''"
proof -
  have a: "''example.com'' \<noteq> []" by simp
  have b: "lighthouse_available with_lighthouse" "\<not> lighthouse_available without_lighthouse"
    by (simp_all add: with_lighthouse_def without_lighthouse_def)
  have c: "run_lighthouse timeout_world (ensure_scheme ''example.com'') = (Inr JNull, None)"
    by (rule run_lighthouse_timeout)
  have d: "\<not> truthy JNull" by simp
  have e: "requests_get_fallback calm_world (ensure_scheme ''example.com'') = Inr plain_page"
    by (simp add: calm_world_def)
  have c': "run_lighthouse perfect_world (ensure_scheme ''example.com'')
              = (Inr perfect_report, None)"
    by (rule run_lighthouse_perfect)
  have d': "truthy perfect_report" by (simp add: perfect_report_def)
  have m: "run_lighthouse full_disk_world (ensure_scheme ''example.com'')
             = (Inl (Exn OSError ''[Errno 28] No space left on device''), None)"
    by (simp add: run_lighthouse_def full_disk_world_def calm_world_def)
  note t1 = fallback_only_when_unavailable[OF a, of without_lighthouse calm_world plain_page]
  note t2 = fallback_only_when_unavailable[OF a, of with_lighthouse timeout_world _ JNull None]
  note t3 = fallback_only_when_unavailable[OF a, of with_lighthouse perfect_world _
      perfect_report None _ "\<lambda>u. Inr tidy_page"]
  from t1 b(2) e have f: "\<exists>r. analyze_website calm_world without_lighthouse ''example.com''
            = (Inr r, None)
          \<and> performance_score r \<in> {50, 70} \<and> seo_score r \<in> {40, 60}
          \<and> accessibility_score r \<in> {40, 50} \<and> best_practices_score r \<in> {40, 60}"
    by blast
  from t2 b(1) c d have g: "\<exists>r. analyze_website timeout_world with_lighthouse ''example.com''
            = (Inr r, None)
          \<and> performance_score r = 0 \<and> seo_score r = 0
          \<and> accessibility_score r = 0 \<and> best_practices_score r = 0"
    by blast
  from t3 b(1) c' d'
  have i: "analyze_website perfect_world with_lighthouse ''example.com'' =
       set_priority (process_lighthouse_results perfect_world perfect_report
                      (check_website_basics perfect_world (ensure_scheme ''example.com'')
                         initial_results)) None"
    by blast
  note k = perfect_analysis
  from t3 b(1)
  have j: "analyze_website (perfect_world\<lparr>requests_get_fallback := (\<lambda>u. Inr tidy_page)\<rparr>)
        with_lighthouse ''example.com''
       = analyze_website perfect_world with_lighthouse ''example.com''"
    by blast
  from a b c d c' d' e f g i k m j show ?thesis by blast
qed

section \<open>The fallback's accessibility heuristic\<close>

lemma check_accessibility_score:
  "accessibility_score (check_accessibility html r) =
     (if sublist ''<img '' html \<and> \<not> sublist ('' alt='' @ [CHR 0x22]) html then 40 else 50)"
proof -
  have "sublist '' alt='' html" if "sublist ('' alt='' @ [CHR 0x22]) html"
    using that by (auto simp: sublist_def)
  then show ?thesis
    by (auto simp: check_accessibility_def Let_def)
qed

lemma check_accessibility_issues:
  "issues (check_accessibility html r) =
     (if sublist ''<img '' html \<and> \<not> sublist ('' alt='' @ [CHR 0x22]) html
      then issues r @ [alt_issue] else issues r)"
proof -
  have "sublist '' alt='' html" if "sublist ('' alt='' @ [CHR 0x22]) html"
    using that by (auto simp: sublist_def)
  then show ?thesis
    by (auto simp: check_accessibility_def Let_def alt_issue_def)
qed

lemma check_best_practices_alt:
  "accessibility_score (check_best_practices resp r) = accessibility_score r"
  "count_list (issues (check_best_practices resp r)) alt_issue = count_list (issues r) alt_issue"
  by (simp_all add: check_best_practices_def Let_def alt_issue_def)

lemma check_seo_alt:
  "count_list (issues (check_seo html r)) alt_issue = count_list (issues r) alt_issue"
  by (simp add: check_seo_def Let_def alt_issue_def)

lemma check_performance_alt:
  "count_list (issues (check_performance resp r)) alt_issue = count_list (issues r) alt_issue"
  by (simp add: check_performance_def alt_issue_def)

lemma fallback_accessibility:
  assumes "requests_get_fallback w url = Inr resp"
  shows "accessibility_score (perform_basic_analysis w url r) =
           (if sublist ''<img '' (str_lower (resp_text resp))
               \<and> \<not> sublist ('' alt='' @ [CHR 0x22]) (str_lower (resp_text resp))
            then 40 else 50)"
    and "count_list (issues (perform_basic_analysis w url r)) alt_issue =
           (if sublist ''<img '' (str_lower (resp_text resp))
               \<and> \<not> sublist ('' alt='' @ [CHR 0x22]) (str_lower (resp_text resp))
            then Suc (count_list (issues r) alt_issue) else count_list (issues r) alt_issue)"
  using assms
  by (simp_all add: perform_basic_analysis_def Let_def check_best_practices_alt
      check_accessibility_score check_accessibility_issues check_seo_alt check_performance_alt)

text \<open>
  C8 (as amended). In the fallback analyzer, for every fetched page, with \<open>html\<close> the
  lowercased page text: when \<open>html\<close> contains \<^verbatim>\<open><img \<close> (the tag name followed by a space)
  and does not contain \<^verbatim>\<open> alt=\<close> (a space, then the attribute name and the equals sign), the
  accessibility score is 40 and the issue \<^verbatim>\<open>Images may be missing alt text\<close> is appended
  once; when \<open>html\<close> does not contain \<^verbatim>\<open><img \<close>, or contains \<^verbatim>\<open> alt="\<close>, the score is the
  default 50 and that issue is not appended; the score is 40 or 50 in every case.
\<close>

theorem accessibility_heuristic:
  assumes "requests_get_fallback w url = Inr resp"
  shows "(sublist ''<img '' (str_lower (resp_text resp))
          \<and> \<not> sublist '' alt='' (str_lower (resp_text resp)) \<longrightarrow>
            accessibility_score (perform_basic_analysis w url r) = 40
            \<and> count_list (issues (perform_basic_analysis w url r)) alt_issue
                = Suc (count_list (issues r) alt_issue))
       \<and> (\<not> sublist ''<img '' (str_lower (resp_text resp))
            \<or> sublist ('' alt='' @ [CHR 0x22]) (str_lower (resp_text resp)) \<longrightarrow>
            accessibility_score (perform_basic_analysis w url r) = 50
            \<and> count_list (issues (perform_basic_analysis w url r)) alt_issue
                = count_list (issues r) alt_issue)
       \<and> accessibility_score (perform_basic_analysis w url r) \<in> {40, 50}"
proof -
  have "sublist '' alt='' (str_lower (resp_text resp))"
    if "sublist ('' alt='' @ [CHR 0x22]) (str_lower (resp_text resp))"
    using that by (auto simp: sublist_def)
  then show ?thesis
    unfolding fallback_accessibility[OF assms] by auto
qed

lemma calm_page_alt:
  "sublist ''<img '' ''<html><title>shop</title><meta name=viewport><img src=a.png></html>''"
  "\<not> sublist '' alt='' ''<html><title>shop</title><meta name=viewport><img src=a.png></html>''"
  by code_simp+

theorem accessibility_heuristic_witness:
  "requests_get_fallback calm_world ''https://example.com'' = Inr plain_page
   \<and> sublist ''<img '' (str_lower (resp_text plain_page))
   \<and> \<not> sublist '' alt='' (str_lower (resp_text plain_page))
   \<and> accessibility_score
         (perform_basic_analysis calm_world ''https://example.com'' initial_results) = 40
   \<and> count_list
         (issues (perform_basic_analysis calm_world ''https://example.com'' initial_results))
         alt_issue = 1
   \<and> requests_get_fallback tidy_world ''http://example.com'' = Inr tidy_page
   \<and> \<not> sublist ''<img '' (str_lower (resp_text tidy_page))
   \<and> accessibility_score
         (perform_basic_analysis tidy_world ''http://example.com'' initial_results) = 50
   \<and> count_list
         (issues (perform_basic_analysis tidy_world ''http://example.com'' initial_results))
         alt_issue = 0"
proof -
  have a: "requests_get_fallback calm_world ''https://example.com'' = Inr plain_page"
    by (simp add: calm_world_def)
  have b: "requests_get_fallback tidy_world ''http://example.com'' = Inr tidy_page"
    by (simp add: tidy_world_fields)
  have c: "issues initial_results = []"
    by (simp add: initial_results_def)
  show ?thesis
    using a b accessibility_heuristic[OF a, of initial_results]
      accessibility_heuristic[OF b, of initial_results]
    by (simp add: calm_page_lower calm_page_alt tidy_page_lower tidy_page_text c)
qed

lemma bare_img_lower: "str_lower (resp_text bare_img_page) = ''<p>gallery</p><img>''"
  by code_simp

lemma bare_img_text:
  "sublist ''<img'' ''<p>gallery</p><img>''"
  "\<not> sublist ''alt='' ''<p>gallery</p><img>''"
  "\<not> sublist ''<img '' ''<p>gallery</p><img>''"
  by code_simp+

text \<open>
  The claim as stated fails on a page whose lowercased text contains \<^verbatim>\<open><img\<close> and no
  \<^verbatim>\<open>alt=\<close>, but where the tag name is not followed by a space: the score is the default 50
  and no issue is appended.
\<close>

theorem accessibility_heuristic_counterexample:
  "requests_get_fallback bare_img_world ''https://example.com'' = Inr bare_img_page
   \<and> sublist ''<img'' (str_lower (resp_text bare_img_page))
   \<and> \<not> sublist ''alt='' (str_lower (resp_text bare_img_page))
   \<and> accessibility_score
         (perform_basic_analysis bare_img_world ''https://example.com'' initial_results) = 50
   \<and> count_list
         (issues (perform_basic_analysis bare_img_world ''https://example.com''
                   initial_results)) alt_issue = 0"
proof -
  have a: "requests_get_fallback bare_img_world ''https://example.com'' = Inr bare_img_page"
    by (simp add: bare_img_world_def calm_world_def)
  show ?thesis
    using a
    by (simp add: fallback_accessibility[OF a] bare_img_lower bare_img_text
        initial_results_def)
qed

section \<open>The normalizer\<close>

lemma scaled_int: "scaled s = Some v \<Longrightarrow> and_then (py_times_100 w s) (py_int w) = Inr v"
  by (cases s) (auto simp: and_then_def split: pyfloat.splits)

lemma score_step_normalized:
  assumes "normalized_score cs name old = Some v"
  shows "score_step w (JDict cs) name assign r =
           Inr (if map_of cs name = None then r else assign v r)"
proof (cases "map_of cs name")
  case None
  then show ?thesis by (simp add: score_step_def and_then_def)
next
  case (Some category)
  with assms obtain c s where c: "category = JDict c" and s: "map_of c ''score'' = Some s"
    and v: "scaled s = Some v"
    by (auto simp: normalized_score_def split: json.splits option.splits)
  from scaled_int[OF v] have "category_score w (JDict cs) name = Inr v"
    by (simp add: category_score_def and_then_def Some c s)
  with Some show ?thesis by (simp add: score_step_def and_then_def)
qed

lemma run_steps_keeps:
  assumes "\<And>s r r'. s \<in> set ss \<Longrightarrow> s r = Inr r' \<Longrightarrow> g r' = g r"
  shows "g (snd (run_steps ss r)) = g r"
  using assms
proof (induction ss arbitrary: r)
  case Nil
  then show ?case by simp
next
  case (Cons s ss)
  show ?case
  proof (cases "s r")
    case (Inl e)
    then show ?thesis by simp
  next
    case (Inr r')
    have "g r' = g r" by (rule Cons.prems[of s]) (simp_all add: Inr)
    moreover have "g (snd (run_steps ss r')) = g r'"
      by (rule Cons.IH) (use Cons.prems in auto)
    ultimately show ?thesis using Inr by simp
  qed
qed

lemma audit_step_keeps:
  assumes "\<And>s r. g (append_issue s r) = g r"
  shows "audit_step w audits name message r = Inr r' \<Longrightarrow> g r' = g r"
  using assms
  by (auto simp: audit_step_def and_then_def split: sum.splits if_splits)

lemma audit_steps_keep:
  assumes "\<And>s r. g (append_issue s r) = g r"
  shows "g (snd (run_steps (audit_steps w audits) r)) = g r"
proof (rule run_steps_keeps)
  fix s r r'
  assume "s \<in> set (audit_steps w audits)" and "s r = Inr r'"
  then show "g r' = g r"
    using audit_step_keeps[of g, OF assms]
    by (auto simp: audit_steps_def)
qed

lemma after_categories_keeps:
  assumes "\<And>s r. g (append_issue s r) = g r"
    and "py_get w d ''categories'' (JDict []) = Inr categories"
    and "run_steps (category_steps w categories) r = (None, r1)"
  shows "g (process_lighthouse_results w d r) = g r1"
proof -
  have le: "g (lighthouse_except e x) = g x" for e x
    by (simp add: lighthouse_except_def assms(1))
  show ?thesis
  proof (cases "py_get w d ''audits'' (JDict [])")
    case (Inl e)
    then show ?thesis
      by (simp add: process_lighthouse_results_def assms(2,3) le)
  next
    case (Inr audits)
    obtain e2 r2 where s2: "run_steps (audit_steps w audits) r1 = (e2, r2)"
      by (cases "run_steps (audit_steps w audits) r1")
    from audit_steps_keep[of g w audits r1, OF assms(1)] s2 have "g r2 = g r1" by simp
    then show ?thesis
      by (cases e2) (simp_all add: process_lighthouse_results_def assms(2,3) Inr s2 le)
  qed
qed

lemma category_steps_normalized:
  assumes "normalized_score cs ''performance'' (performance_score r) = Some p"
    and "normalized_score cs ''accessibility'' (accessibility_score r) = Some a"
    and "normalized_score cs ''best-practices'' (best_practices_score r) = Some b"
    and "normalized_score cs ''seo'' (seo_score r) = Some s"
  shows "\<exists>r1. run_steps (category_steps w (JDict cs)) r = (None, r1)
           \<and> performance_score r1 = p \<and> accessibility_score r1 = a
           \<and> best_practices_score r1 = b \<and> seo_score r1 = s"
proof -
  have absent: "map_of cs name = None \<Longrightarrow> normalized_score cs name old = Some v \<Longrightarrow> v = old"
    for name old v
    by (simp add: normalized_score_def)
  show ?thesis
    using absent[OF _ assms(1)] absent[OF _ assms(2)] absent[OF _ assms(3)]
      absent[OF _ assms(4)]
    by (simp add: category_steps_def score_step_normalized[OF assms(1)]
        score_step_normalized[OF assms(2)] score_step_normalized[OF assms(3)]
        score_step_normalized[OF assms(4)])
qed

lemma process_scores:
  assumes "py_get w d ''categories'' (JDict []) = Inr (JDict cs)"
    and "normalized_score cs ''performance'' (performance_score r) = Some p"
    and "normalized_score cs ''accessibility'' (accessibility_score r) = Some a"
    and "normalized_score cs ''best-practices'' (best_practices_score r) = Some b"
    and "normalized_score cs ''seo'' (seo_score r) = Some s"
  shows "performance_score (process_lighthouse_results w d r) = p"
    and "accessibility_score (process_lighthouse_results w d r) = a"
    and "best_practices_score (process_lighthouse_results w d r) = b"
    and "seo_score (process_lighthouse_results w d r) = s"
proof -
  from category_steps_normalized[OF assms(2-5)] obtain r1 where
    r1: "run_steps (category_steps w (JDict cs)) r = (None, r1)"
    and v: "performance_score r1 = p" "accessibility_score r1 = a"
      "best_practices_score r1 = b" "seo_score r1 = s"
    by blast
  show "performance_score (process_lighthouse_results w d r) = p"
    using after_categories_keeps[of performance_score, OF _ assms(1) r1] v by simp
  show "accessibility_score (process_lighthouse_results w d r) = a"
    using after_categories_keeps[of accessibility_score, OF _ assms(1) r1] v by simp
  show "best_practices_score (process_lighthouse_results w d r) = b"
    using after_categories_keeps[of best_practices_score, OF _ assms(1) r1] v by simp
  show "seo_score (process_lighthouse_results w d r) = s"
    using after_categories_keeps[of seo_score, OF _ assms(1) r1] v by simp
qed

text \<open>
  C4 (as amended). For every report whose \<^verbatim>\<open>categories\<close> section is a dictionary in which
  each of the four categories is either absent or present with a numeric score, the
  normalizer sets the score field of every present category to \<^verbatim>\<open>int(score * 100)\<close>, the
  double nearest to the product truncated toward zero, and leaves the field of every
  absent category at its previous value.
\<close>

theorem normalizer_scores:
  assumes "py_get w d ''categories'' (JDict []) = Inr (JDict cs)"
    and "normalized_score cs ''performance'' (performance_score r) = Some p"
    and "normalized_score cs ''accessibility'' (accessibility_score r) = Some a"
    and "normalized_score cs ''best-practices'' (best_practices_score r) = Some b"
    and "normalized_score cs ''seo'' (seo_score r) = Some s"
  shows "performance_score (process_lighthouse_results w d r) = p
       \<and> accessibility_score (process_lighthouse_results w d r) = a
       \<and> best_practices_score (process_lighthouse_results w d r) = b
       \<and> seo_score (process_lighthouse_results w d r) = s"
  using process_scores[OF assms] by simp

lemma sample_categories:
  "py_get w sample_report ''categories'' (JDict []) =
     Inr (JDict [(''performance'', JDict [(''score'', JFloat (float_of_literal (9 / 10)))]),
                 (''seo'', JDict [(''score'', JFloat (float_of_literal (3 / 10)))])])"
  by (simp add: sample_report_def)

lemma scaled_09: "scaled (JFloat (float_of_literal (9 / 10))) = Some 90"
  by (simp only: scaled.simps double_09 double_09_times_100 pyfloat.simps trunc_values)

lemma scaled_03: "scaled (JFloat (float_of_literal (3 / 10))) = Some 30"
  by (simp only: scaled.simps double_03 double_03_times_100 pyfloat.simps trunc_values)

lemma scaled_029: "scaled (JFloat (float_of_literal (29 / 100))) = Some 28"
  by (simp only: scaled.simps double_029 double_029_times_100 pyfloat.simps trunc_values)

lemma scaled_15_16: "scaled (JFloat (Finite (15 / 16))) = Some 93"
  by (simp only: scaled.simps double_15_16_times_100 pyfloat.simps trunc_values)

lemma sample_normalized:
  "normalized_score
     [(''performance'', JDict [(''score'', JFloat (float_of_literal (9 / 10)))]),
      (''seo'', JDict [(''score'', JFloat (float_of_literal (3 / 10)))])] ''performance'' 0
     = Some 90"
  "normalized_score
     [(''performance'', JDict [(''score'', JFloat (float_of_literal (9 / 10)))]),
      (''seo'', JDict [(''score'', JFloat (float_of_literal (3 / 10)))])] ''accessibility'' 0
     = Some 0"
  "normalized_score
     [(''performance'', JDict [(''score'', JFloat (float_of_literal (9 / 10)))]),
      (''seo'', JDict [(''score'', JFloat (float_of_literal (3 / 10)))])] ''best-practices'' 0
     = Some 0"
  "normalized_score
     [(''performance'', JDict [(''score'', JFloat (float_of_literal (9 / 10)))]),
      (''seo'', JDict [(''score'', JFloat (float_of_literal (3 / 10)))])] ''seo'' 0
     = Some 30"
  by (simp_all add: normalized_score_def scaled_09 scaled_03 del: scaled.simps)

lemma inexact_categories:
  "py_get w inexact_report ''categories'' (JDict []) =
     Inr (JDict [(''performance'', JDict [(''score'', JFloat (float_of_literal (29 / 100)))])])"
  by (simp add: inexact_report_def)

lemma inexact_normalized:
  "normalized_score
     [(''performance'', JDict [(''score'', JFloat (float_of_literal (29 / 100)))])]
     ''performance'' 0 = Some 28"
  "normalized_score
     [(''performance'', JDict [(''score'', JFloat (float_of_literal (29 / 100)))])]
     ''accessibility'' 0 = Some 0"
  "normalized_score
     [(''performance'', JDict [(''score'', JFloat (float_of_literal (29 / 100)))])]
     ''best-practices'' 0 = Some 0"
  "normalized_score
     [(''performance'', JDict [(''score'', JFloat (float_of_literal (29 / 100)))])]
     ''seo'' 0 = Some 0"
  by (simp_all add: normalized_score_def scaled_029 del: scaled.simps)

text \<open>The scenario of the specification: performance 0.9, SEO 0.3, the other two
  categories absent, on a fresh result; the scores are the doubles nearest to 0.9 and 0.3,
  whose products with 100 round to the doubles 90 and 30. A second report has the
  performance score 0.29: the double nearest to the product lies just below 29, and the
  field becomes 28.\<close>

theorem normalizer_scores_witness:
  "float_of_literal (9 / 10) = Finite (8106479329266893 / 9007199254740992)
   \<and> float_of_literal (3 / 10) = Finite (5404319552844595 / 18014398509481984)
   \<and> py_get calm_world sample_report ''categories'' (JDict []) =
     Inr (JDict [(''performance'', JDict [(''score'', JFloat (float_of_literal (9 / 10)))]),
                 (''seo'', JDict [(''score'', JFloat (float_of_literal (3 / 10)))])])
   \<and> performance_score (process_lighthouse_results calm_world sample_report initial_results)
       = 90
   \<and> accessibility_score (process_lighthouse_results calm_world sample_report initial_results)
       = 0
   \<and> best_practices_score
         (process_lighthouse_results calm_world sample_report initial_results) = 0
   \<and> seo_score (process_lighthouse_results calm_world sample_report initial_results) = 30
   \<and> performance_score (process_lighthouse_results calm_world inexact_report initial_results)
       = 28"
proof -
  have z: "performance_score initial_results = 0" "accessibility_score initial_results = 0"
    "best_practices_score initial_results = 0" "seo_score initial_results = 0"
    by (simp_all add: initial_results_def)
  have s: "performance_score
             (process_lighthouse_results calm_world sample_report initial_results) = 90
       \<and> accessibility_score
             (process_lighthouse_results calm_world sample_report initial_results) = 0
       \<and> best_practices_score
             (process_lighthouse_results calm_world sample_report initial_results) = 0
       \<and> seo_score (process_lighthouse_results calm_world sample_report initial_results) = 30"
    using normalizer_scores[OF sample_categories, of initial_results 90 0 0 30 calm_world]
    by (simp add: z sample_normalized)
  have i: "performance_score
             (process_lighthouse_results calm_world inexact_report initial_results) = 28"
    using normalizer_scores[OF inexact_categories, of initial_results 28 0 0 0 calm_world]
    by (simp add: z inexact_normalized)
  from s i double_09 double_03 sample_categories[of calm_world] show ?thesis by simp
qed

text \<open>
  The claim as stated, with \<open>round\<close> in place of the truncation, fails on a report whose
  performance score is 0.9375: the score and the product 93.75 are exact in binary, the
  field becomes 93, and rounding gives 94.
\<close>

theorem normalizer_scores_counterexample:
  "float_of_literal (15 / 16) = Finite (15 / 16)
   \<and> float_times_100 (Finite (15 / 16)) = Finite (375 / 4)
   \<and> performance_score
       (process_lighthouse_results calm_world truncating_report initial_results) = 93
   \<and> round ((375 / 4 :: real)) = (94 :: int)"
proof -
  have c: "py_get calm_world truncating_report ''categories'' (JDict []) =
             Inr (JDict [(''performance'', JDict [(''score'', JFloat (Finite (15 / 16)))])])"
    by (simp add: truncating_report_def)
  have n: "normalized_score
             [(''performance'', JDict [(''score'', JFloat (Finite (15 / 16)))])]
             ''performance'' 0 = Some 93"
    "normalized_score
             [(''performance'', JDict [(''score'', JFloat (Finite (15 / 16)))])]
             ''accessibility'' 0 = Some 0"
    "normalized_score
             [(''performance'', JDict [(''score'', JFloat (Finite (15 / 16)))])]
             ''best-practices'' 0 = Some 0"
    "normalized_score
             [(''performance'', JDict [(''score'', JFloat (Finite (15 / 16)))])]
             ''seo'' 0 = Some 0"
      by (simp_all add: normalized_score_def scaled_15_16 del: scaled.simps)
  have z: "performance_score initial_results = 0" "accessibility_score initial_results = 0"
    "best_practices_score initial_results = 0" "seo_score initial_results = 0"
    by (simp_all add: initial_results_def)
  have r: "round ((375 / 4 :: real)) = (94 :: int)"
    by (simp add: round_def floor_eq_iff)
  from process_scores(1)[OF c, of initial_results 93 0 0 0] n z
  have "performance_score
          (process_lighthouse_results calm_world truncating_report initial_results) = 93"
    by simp
  with r double_15_16 double_15_16_times_100 show ?thesis by simp
qed

section \<open>The marker in the joined issues\<close>

lemma capitalised_Cons [simp]: "capitalised (c # cs) = (c \<in> set ascii_uppercase)"
  by (simp add: capitalised_def)

lemma capitalised_Nil [simp]: "\<not> capitalised []"
  by (simp add: capitalised_def)

lemma capitalised_append: "capitalised s \<Longrightarrow> capitalised (s @ t)"
  by (cases s) simp_all

text \<open>Wherever the marker is cut after a space, the second piece starts with a
  lowercase letter.\<close>

lemma marker_split:
  assumes "marker = m1 @ m2" and "m1 \<noteq> []" and "last m1 = CHR '' ''"
  shows "\<not> capitalised m2"
  using assms
  by (auto simp: marker_def Cons_eq_append_conv ascii_uppercase_def)

lemma marker_last: "last marker \<noteq> CHR '' ''" and marker_nonempty: "marker \<noteq> []"
  by (simp_all add: marker_def)

lemma sublist_marker_space: "sublist marker (x @ '' '') \<longleftrightarrow> sublist marker x"
proof
  assume "sublist marker (x @ '' '')"
  then consider "sublist marker x" | "sublist marker '' ''"
    | m1 m2 where "marker = m1 @ m2" "suffix m1 x" "prefix m2 '' ''"
    by (auto simp: sublist_append)
  then show "sublist marker x"
  proof cases
    case 1
    then show ?thesis .
  next
    case 2
    then have "length marker \<le> length '' ''" by (rule sublist_length_le)
    then show ?thesis by (simp add: marker_def)
  next
    case 3
    from 3(3) have "m2 = [] \<or> m2 = '' ''"
      by (cases m2) (auto simp: prefix_Cons)
    then show ?thesis
    proof
      assume "m2 = []"
      with 3 show ?thesis by auto
    next
      assume "m2 = '' ''"
      with 3(1) have "marker = m1 @ '' ''" by simp
      then have "last marker = last (m1 @ '' '')" by (rule arg_cong)
      then have "last marker = CHR '' ''" by simp
      with marker_last show ?thesis by simp
    qed
  qed
next
  assume "sublist marker x"
  then show "sublist marker (x @ '' '')"
    by (auto simp: sublist_append)
qed

lemma sublist_marker_sep:
  assumes "capitalised rest"
  shows "sublist marker (x @ '' '' @ rest) \<longleftrightarrow> sublist marker x \<or> sublist marker rest"
proof
  assume "sublist marker (x @ '' '' @ rest)"
  then have "sublist marker ((x @ '' '') @ rest)" by simp
  then consider "sublist marker (x @ '' '')" | "sublist marker rest"
    | m1 m2 where "marker = m1 @ m2" "suffix m1 (x @ '' '')" "prefix m2 rest"
    unfolding sublist_append by blast
  then show "sublist marker x \<or> sublist marker rest"
  proof cases
    case 1
    then show ?thesis by (simp add: sublist_marker_space)
  next
    case 2
    then show ?thesis by simp
  next
    case 3
    show ?thesis
    proof (cases "m1 = []")
      case True
      with 3 show ?thesis by auto
    next
      case False
      with 3(2) have sp: "last m1 = CHR '' ''"
        by (auto simp: suffix_def) (metis last_appendR last_snoc)
      show ?thesis
      proof (cases "m2 = []")
        case True
        with 3(1) sp marker_last show ?thesis by simp
      next
        case m2: False
        with 3(3) assms have "capitalised m2"
          by (cases m2; cases rest) (auto simp: prefix_Cons)
        with marker_split[OF 3(1) False sp] show ?thesis by simp
      qed
    qed
  qed
next
  assume "sublist marker x \<or> sublist marker rest"
  then have "sublist marker ((x @ '' '') @ rest)"
    unfolding sublist_append by (auto simp: sublist_marker_space)
  then show "sublist marker (x @ '' '' @ rest)" by simp
qed

lemma join_capitalised:
  "xs \<noteq> [] \<Longrightarrow> list_all capitalised xs \<Longrightarrow> capitalised (join '' '' xs)"
  by (induction "'' ''" xs rule: join.induct) (auto intro: capitalised_append)

lemma marker_in_join:
  "list_all capitalised xs \<Longrightarrow>
     sublist marker (join '' '' xs) \<longleftrightarrow> list_ex (sublist marker) xs"
proof (induction "'' ''" xs rule: join.induct)
  case 1
  then show ?case by (simp add: marker_nonempty)
next
  case (2 x)
  then show ?case by simp
next
  case (3 x y ys)
  from 3(2) have "capitalised (join '' '' (y # ys))"
    by (intro join_capitalised) simp_all
  from sublist_marker_sep[OF this, of x] 3 show ?case by simp
qed

section \<open>Every recorded issue starts with a capital letter\<close>

lemma append_issue_capitalised:
  "capitalised s \<Longrightarrow> list_all capitalised (issues r)
   \<Longrightarrow> list_all capitalised (issues (append_issue s r))"
  by simp

lemma basics_except_capitalised:
  "list_all capitalised (issues r) \<Longrightarrow> list_all capitalised (issues (basics_except e r))"
  by (simp add: basics_except_def ascii_uppercase_def)

lemma check_ssl_capitalised:
  "list_all capitalised (issues r) \<Longrightarrow> list_all capitalised (issues (check_ssl w url r))"
  by (simp add: check_ssl_def Let_def ascii_uppercase_def split: sum.splits)

lemma check_page_capitalised:
  "list_all capitalised (issues r)
   \<Longrightarrow> list_all capitalised (issues (check_page w url resp r))"
  by (simp add: check_page_def Let_def basics_except_capitalised ascii_uppercase_def
      split: sum.splits)

lemma check_website_basics_capitalised:
  assumes "list_all capitalised (issues r)"
  shows "list_all capitalised (issues (check_website_basics w url r))"
  using check_ssl_capitalised[OF assms, of w url]
  by (simp add: check_website_basics_def Let_def basics_except_capitalised
      check_page_capitalised ascii_uppercase_def split: sum.splits)

lemma run_steps_invariant:
  assumes "P r" and "\<And>s r r'. s \<in> set ss \<Longrightarrow> P r \<Longrightarrow> s r = Inr r' \<Longrightarrow> P r'"
  shows "P (snd (run_steps ss r))"
  using assms
proof (induction ss arbitrary: r)
  case Nil
  then show ?case by simp
next
  case (Cons s ss)
  show ?case
  proof (cases "s r")
    case (Inl e)
    with Cons.prems(1) show ?thesis by simp
  next
    case (Inr r')
    have "P r'" by (rule Cons.prems(2)[of s r]) (simp_all add: Cons.prems(1) Inr)
    then have "P (snd (run_steps ss r'))"
      by (rule Cons.IH) (use Cons.prems(2) in auto)
    with Inr show ?thesis by simp
  qed
qed

lemma process_lighthouse_results_invariant:
  assumes start: "P r"
    and cat: "\<And>categories s r r'. s \<in> set (category_steps w categories) \<Longrightarrow> P r
                \<Longrightarrow> s r = Inr r' \<Longrightarrow> P r'"
    and aud: "\<And>audits s r r'. s \<in> set (audit_steps w audits) \<Longrightarrow> P r
                \<Longrightarrow> s r = Inr r' \<Longrightarrow> P r'"
    and exc: "\<And>e r. P r \<Longrightarrow> P (lighthouse_except e r)"
  shows "P (process_lighthouse_results w d r)"
proof (cases "py_get w d ''categories'' (JDict [])")
  case (Inl e)
  with exc[OF start] show ?thesis by (simp add: process_lighthouse_results_def)
next
  case (Inr categories)
  obtain e1 r1 where s1: "run_steps (category_steps w categories) r = (e1, r1)"
    by (cases "run_steps (category_steps w categories) r")
  have p1: "P r1"
    using run_steps_invariant[of P r "category_steps w categories", OF start cat] s1 by simp
  show ?thesis
  proof (cases e1)
    case (Some e)
    with exc[OF p1] Inr s1 show ?thesis by (simp add: process_lighthouse_results_def)
  next
    case None
    show ?thesis
    proof (cases "py_get w d ''audits'' (JDict [])")
      case (Inl e)
      with exc[OF p1] Inr s1 None show ?thesis by (simp add: process_lighthouse_results_def)
    next
      case audits: (Inr audits)
      obtain e2 r2 where s2: "run_steps (audit_steps w audits) r1 = (e2, r2)"
        by (cases "run_steps (audit_steps w audits) r1")
      have p2: "P r2"
        using run_steps_invariant[of P r1 "audit_steps w audits", OF p1 aud] s2 by simp
      with exc[OF p2] Inr s1 None audits s2 show ?thesis
        by (cases e2) (simp_all add: process_lighthouse_results_def)
    qed
  qed
qed

lemma score_step_issues:
  assumes "\<And>n r. issues (assign n r) = issues r"
  shows "score_step w categories name assign r = Inr r' \<Longrightarrow> issues r' = issues r"
  using assms by (auto simp: score_step_def and_then_def split: sum.splits if_splits)

lemma audit_step_capitalised:
  assumes "\<And>audit msg. message audit = Inr msg \<Longrightarrow> capitalised msg"
    and "list_all capitalised (issues r)"
    and "audit_step w audits name message r = Inr r'"
  shows "list_all capitalised (issues r')"
  using assms
  by (auto simp: audit_step_def and_then_def split: sum.splits if_splits)

lemma with_display_value_capitalised:
  "capitalised label \<Longrightarrow> with_display_value w label audit = Inr msg \<Longrightarrow> capitalised msg"
  by (auto simp: with_display_value_def and_then_def capitalised_append split: sum.splits)

lemma fixed_message_capitalised:
  "capitalised s \<Longrightarrow> fixed_message s audit = Inr msg \<Longrightarrow> capitalised msg"
  by (simp add: fixed_message_def)

lemma audit_step_display:
  assumes "capitalised label" and "list_all capitalised (issues r)"
    and "audit_step w audits name (with_display_value w label) r = Inr r'"
  shows "list_all capitalised (issues r')"
  by (rule audit_step_capitalised[OF _ assms(2,3)])
    (rule with_display_value_capitalised[OF assms(1)])

lemma audit_step_fixed:
  assumes "capitalised msg" and "list_all capitalised (issues r)"
    and "audit_step w audits name (fixed_message msg) r = Inr r'"
  shows "list_all capitalised (issues r')"
  by (rule audit_step_capitalised[OF _ assms(2,3)])
    (rule fixed_message_capitalised[OF assms(1)])

lemma audit_steps_capitalised:
  assumes "s \<in> set (audit_steps w audits)" and "list_all capitalised (issues r)"
    and "s r = Inr r'"
  shows "list_all capitalised (issues r')"
  using assms
  by (auto simp: audit_steps_def ascii_uppercase_def
      elim: audit_step_display[rotated 2] audit_step_fixed[rotated 2])

lemma category_steps_issues:
  assumes "s \<in> set (category_steps w categories)" and "s r = Inr r'"
  shows "issues r' = issues r"
  using assms
  by (auto simp: category_steps_def elim!: score_step_issues[rotated])

lemma process_lighthouse_results_capitalised:
  assumes "list_all capitalised (issues r)"
  shows "list_all capitalised (issues (process_lighthouse_results w d r))"
proof (rule process_lighthouse_results_invariant[where P = "\<lambda>r. list_all capitalised (issues r)"])
  show "list_all capitalised (issues r)" by (rule assms)
next
  fix categories s r r'
  assume "s \<in> set (category_steps w categories)" "list_all capitalised (issues r)"
    "s r = Inr r'"
  then show "list_all capitalised (issues r')"
    using category_steps_issues[of s w categories r r'] by simp
next
  fix audits s r r'
  assume "s \<in> set (audit_steps w audits)" "list_all capitalised (issues r)" "s r = Inr r'"
  then show "list_all capitalised (issues r')"
    by (rule audit_steps_capitalised)
next
  fix e and r :: results
  assume "list_all capitalised (issues r)"
  then show "list_all capitalised (issues (lighthouse_except e r))"
    by (simp add: lighthouse_except_def ascii_uppercase_def)
qed

lemma perform_basic_analysis_capitalised:
  "list_all capitalised (issues r)
   \<Longrightarrow> list_all capitalised (issues (perform_basic_analysis w url r))"
  by (simp add: perform_basic_analysis_def check_best_practices_def check_accessibility_def
      check_seo_def check_performance_def Let_def ascii_uppercase_def split: sum.splits)

section \<open>The priority of a final result\<close>

lemma calculate_priority_rule:
  assumes "list_all capitalised (issues r)" and "calculate_priority r = Inr p"
  shows "p = priority_by_rule r"
  using assms
  by (auto simp: calculate_priority_def priority_by_rule_def marker_in_join Let_def
      add.assoc split: if_splits)

lemma analyze_website_capitalised:
  assumes "analyze_website w self url0 = (Inr r, f)"
  shows "list_all capitalised (issues r)"
proof (cases "url0 = []")
  case True
  with assms show ?thesis
    by (auto simp: analyze_website_def initial_results_def ascii_uppercase_def)
next
  case False
  let ?b = "check_website_basics w (ensure_scheme url0) initial_results"
  have b: "list_all capitalised (issues ?b)"
    by (rule check_website_basics_capitalised) (simp add: initial_results_def)
  show ?thesis
  proof (cases "lighthouse_available self")
    case na: False
    let ?a = "perform_basic_analysis w (ensure_scheme url0) (append_issue unavailable_issue ?b)"
    from analyze_website_fallback[OF False na, of w] assms have "issues r = issues ?a"
      by auto
    moreover have "list_all capitalised (issues ?a)"
      by (rule perform_basic_analysis_capitalised)
        (simp add: b unavailable_issue_def ascii_uppercase_def)
    ultimately show ?thesis by simp
  next
    case True
    obtain x h where rl: "run_lighthouse w (ensure_scheme url0) = (x, h)"
      by (cases "run_lighthouse w (ensure_scheme url0)")
    from assms False True rl obtain dd where x: "x = Inr dd"
      by (cases x) (auto simp: analyze_website_def Let_def)
    have "issues r = issues ?b \<or> issues r = issues (process_lighthouse_results w dd ?b)"
      using assms False True rl x
      by (auto simp: analyze_website_def Let_def dest: set_priority_issues split: if_splits)
    with b process_lighthouse_results_capitalised[OF b, of w dd] show ?thesis
      by auto
  qed
qed

lemma set_priority_result:
  "set_priority r f = (Inr r', f') \<Longrightarrow>
     \<exists>p. priority r' = Some p \<and> calculate_priority r' = Inr p"
  by (auto simp: set_priority_def split: sum.splits)

lemma analyze_website_priority:
  assumes "analyze_website w self url0 = (Inr r, f)"
  shows "\<exists>p. calculate_priority r = Inr p \<and> (url0 \<noteq> [] \<longrightarrow> priority r = Some p)"
proof (cases "url0 = []")
  case True
  with assms have "r = append_issue ''No URL provided'' initial_results"
    by (simp add: analyze_website_def)
  then show ?thesis using True
    by (simp add: calculate_priority_zero_scores initial_results_def)
next
  case False
  from assms False have "\<exists>r0 f0. set_priority r0 f0 = (Inr r, f)"
    by (auto simp: analyze_website_def Let_def split: if_splits prod.splits sum.splits)
  with set_priority_result show ?thesis by blast
qed

lemma final_priority:
  assumes "analyze_website w self url0 = (Inr r, f)"
  shows "calculate_priority r = Inr (priority_by_rule r)"
    and "url0 \<noteq> [] \<Longrightarrow> priority r = Some (priority_by_rule r)"
proof -
  from analyze_website_priority[OF assms] obtain p where
    p: "calculate_priority r = Inr p" "url0 \<noteq> [] \<longrightarrow> priority r = Some p"
    by blast
  from calculate_priority_rule[OF analyze_website_capitalised[OF assms] p(1)]
  have "p = priority_by_rule r" .
  with p show "calculate_priority r = Inr (priority_by_rule r)"
    and "url0 \<noteq> [] \<Longrightarrow> priority r = Some (priority_by_rule r)"
    by simp_all
qed

lemma calculate_priority_pure:
  assumes "issues r1 = issues r2" "performance_score r1 = performance_score r2"
    "seo_score r1 = seo_score r2" "accessibility_score r1 = accessibility_score r2"
    "best_practices_score r1 = best_practices_score r2"
  shows "calculate_priority r1 = calculate_priority r2"
  using assms by (simp add: calculate_priority_def Let_def)

text \<open>
  C3. On every result that \<^verbatim>\<open>analyze_website\<close> returns, the priority calculator returns the
  priority of the rule: 1 exactly when some recorded issue contains the marker
  \<^verbatim>\<open>Error accessing website\<close>, otherwise 2 when the mean of the four scores is below 60 or
  there are more than three issues, otherwise 3; for a non-empty URL that value is the
  priority of the result. The value of the rule and every value the calculator returns
  are 1, 2 or 3; the calculator returns a value whenever the four scores lie between 0
  and 100; and it depends on the issue list and the four scores only.
\<close>

theorem priority_rule:
  "(analyze_website w self url0 = (Inr r, f) \<longrightarrow>
      calculate_priority r = Inr (priority_by_rule r)
      \<and> (url0 \<noteq> [] \<longrightarrow> priority r = Some (priority_by_rule r)))
   \<and> priority_by_rule r1 \<in> {1, 2, 3}
   \<and> (calculate_priority r1 = Inr p \<longrightarrow> p \<in> {1, 2, 3})
   \<and> (0 \<le> performance_score r1 \<and> performance_score r1 \<le> 100
        \<and> 0 \<le> seo_score r1 \<and> seo_score r1 \<le> 100
        \<and> 0 \<le> accessibility_score r1 \<and> accessibility_score r1 \<le> 100
        \<and> 0 \<le> best_practices_score r1 \<and> best_practices_score r1 \<le> 100 \<longrightarrow>
        (\<exists>q. calculate_priority r1 = Inr q))
   \<and> (issues r1 = issues r2 \<and> performance_score r1 = performance_score r2
        \<and> seo_score r1 = seo_score r2 \<and> accessibility_score r1 = accessibility_score r2
        \<and> best_practices_score r1 = best_practices_score r2 \<longrightarrow>
        calculate_priority r1 = calculate_priority r2)"
proof -
  have a: "priority_by_rule r1 \<in> {1, 2, 3}"
    by (simp add: priority_by_rule_def)
  have b: "\<exists>q. calculate_priority r1 = Inr q"
    if "0 \<le> performance_score r1 \<and> performance_score r1 \<le> 100
        \<and> 0 \<le> seo_score r1 \<and> seo_score r1 \<le> 100
        \<and> 0 \<le> accessibility_score r1 \<and> accessibility_score r1 \<le> 100
        \<and> 0 \<le> best_practices_score r1 \<and> best_practices_score r1 \<le> 100"
    by (rule calculate_priority_bounded) (use that in simp)
  show ?thesis
    using final_priority[of w self url0 r f] a b calculate_priority_range[of r1 p]
      calculate_priority_pure[of r1 r2]
    by blast
qed

text \<open>Three final results: an unreachable site (priority 1), the tidy page with four
  issues and mean 60 (priority 2), a perfect report (priority 3).\<close>

theorem priority_rule_witness:
  "analyze_website offline_world without_lighthouse ''example.com'' =
     (Inr \<lparr>performance_score = 0, seo_score = 0, accessibility_score = 0,
           best_practices_score = 0, has_ssl = True, has_mobile_viewport = False,
           issues = [''Error accessing website: Connection refused'',
                     ''Lighthouse not available for detailed analysis'',
                     ''Error during basic analysis: Connection refused''],
           priority = Some 1\<rparr>, None)
   \<and> priority_by_rule
        \<lparr>performance_score = 0, seo_score = 0, accessibility_score = 0,
         best_practices_score = 0, has_ssl = True, has_mobile_viewport = False,
         issues = [''Error accessing website: Connection refused'',
                   ''Lighthouse not available for detailed analysis'',
                   ''Error during basic analysis: Connection refused''],
         priority = Some 1\<rparr> = 1
   \<and> analyze_website tidy_world without_lighthouse ''http://example.com'' =
     (Inr \<lparr>performance_score = 70, seo_score = 60, accessibility_score = 50,
           best_practices_score = 60, has_ssl = False, has_mobile_viewport = False,
           issues = [''Website does not use SSL (https)'',
                     ''HTTPS is available but not used by default'',
                     ''No mobile viewport meta tag found'',
                     ''Lighthouse not available for detailed analysis''],
           priority = Some 2\<rparr>, None)
   \<and> priority_by_rule
        \<lparr>performance_score = 70, seo_score = 60, accessibility_score = 50,
         best_practices_score = 60, has_ssl = False, has_mobile_viewport = False,
         issues = [''Website does not use SSL (https)'',
                   ''HTTPS is available but not used by default'',
                   ''No mobile viewport meta tag found'',
                   ''Lighthouse not available for detailed analysis''],
         priority = Some 2\<rparr> = 2
   \<and> analyze_website perfect_world with_lighthouse ''example.com'' =
     (Inr \<lparr>performance_score = 100, seo_score = 100, accessibility_score = 100,
           best_practices_score = 100, has_ssl = True, has_mobile_viewport = True,
           issues = [], priority = Some 3\<rparr>, None)
   \<and> priority_by_rule
        \<lparr>performance_score = 100, seo_score = 100, accessibility_score = 100,
         best_practices_score = 100, has_ssl = True, has_mobile_viewport = True,
         issues = [], priority = Some 3\<rparr> = 3
   \<and> calculate_priority initial_results = Inr 2
   \<and> calculate_priority (initial_results\<lparr>has_ssl := True\<rparr>)
       = calculate_priority initial_results"
proof -
  let ?r1 = "\<lparr>performance_score = 0, seo_score = 0, accessibility_score = 0,
         best_practices_score = 0, has_ssl = True, has_mobile_viewport = False,
         issues = [''Error accessing website: Connection refused'',
                   ''Lighthouse not available for detailed analysis'',
                   ''Error during basic analysis: Connection refused''],
         priority = Some 1\<rparr>"
  let ?r2 = "\<lparr>performance_score = 70, seo_score = 60, accessibility_score = 50,
         best_practices_score = 60, has_ssl = False, has_mobile_viewport = False,
         issues = [''Website does not use SSL (https)'',
                   ''HTTPS is available but not used by default'',
                   ''No mobile viewport meta tag found'',
                   ''Lighthouse not available for detailed analysis''],
         priority = Some 2\<rparr>"
  let ?r3 = "\<lparr>performance_score = 100, seo_score = 100, accessibility_score = 100,
         best_practices_score = 100, has_ssl = True, has_mobile_viewport = True,
         issues = [], priority = Some 3\<rparr>"
  note t1 = priority_rule[of offline_world without_lighthouse "''example.com''" ?r1 None
      initial_results 2 "initial_results\<lparr>has_ssl := True\<rparr>"]
  note t2 = priority_rule[of tidy_world without_lighthouse "''http://example.com''" ?r2 None
      initial_results 2 "initial_results"]
  note t3 = priority_rule[of perfect_world with_lighthouse "''example.com''" ?r3 None
      initial_results 2 "initial_results"]
  have z: "calculate_priority initial_results = Inr 2"
    by (simp add: calculate_priority_zero_scores initial_results_def marker_def)
  have e: "calculate_priority (initial_results\<lparr>has_ssl := True\<rparr>)
             = calculate_priority initial_results"
    using t1 by simp
  have p1: "priority ?r1 = Some (priority_by_rule ?r1)"
    using t1 offline_analysis by simp
  have p2: "priority ?r2 = Some (priority_by_rule ?r2)"
    using t2 tidy_analysis by simp
  have p3: "priority ?r3 = Some (priority_by_rule ?r3)"
    using t3 perfect_analysis by simp
  show ?thesis
    using p1 p2 p3 z e offline_analysis tidy_analysis perfect_analysis
    by simp
qed

section \<open>The issue recorded when the tool is not available\<close>

text \<open>Where no issue contains the marker and the mean is at least 60, the priority is
  decided by the number of issues alone, and taking one issue away moves the threshold
  by one.\<close>

lemma priority_without_issue:
  assumes cap: "list_all capitalised (issues r)"
    and calc: "calculate_priority r = Inr p"
    and nm: "\<not> list_ex (sublist marker) (issues r)"
    and mean: "60 \<le> real_of_int (performance_score r + seo_score r + accessibility_score r
                                  + best_practices_score r) / 4"
    and mem: "x \<in> set (issues r)"
  shows "p = (if 3 < length (issues r) then 2 else 3)"
    and "calculate_priority (r\<lparr>issues := remove1 x (issues r)\<rparr>)
           = Inr (if 4 < length (issues r) then 2 else 3)"
proof -
  have j: "\<not> sublist marker (join '' '' (issues r))"
    using marker_in_join[OF cap] nm by simp
  have no: "\<not> true_division_overflows
               (performance_score r + (seo_score r + (accessibility_score r
                  + best_practices_score r))) 4"
    using calc j by (auto simp: calculate_priority_def Let_def split: if_splits)
  from calc j no mean show "p = (if 3 < length (issues r) then 2 else 3)"
    by (auto simp: calculate_priority_def Let_def add.assoc split: if_splits)
  have sub: "set (remove1 x (issues r)) \<subseteq> set (issues r)"
    by (rule set_remove1_subset)
  have cap': "list_all capitalised (remove1 x (issues r))"
    using cap sub by (auto simp: list_all_iff)
  have nm': "\<not> list_ex (sublist marker) (remove1 x (issues r))"
    using nm sub by (auto simp: list_ex_iff)
  have j': "\<not> sublist marker (join '' '' (remove1 x (issues r)))"
    using marker_in_join[OF cap'] nm' by simp
  have len: "length (remove1 x (issues r)) = length (issues r) - 1"
    using mem by (simp add: length_remove1)
  have pos: "0 < length (issues r)"
    using mem by (cases "issues r") simp_all
  from j' no mean len pos
  show "calculate_priority (r\<lparr>issues := remove1 x (issues r)\<rparr>)
          = Inr (if 4 < length (issues r) then 2 else 3)"
    by (auto simp: calculate_priority_def Let_def add.assoc)
qed

text \<open>
  C10. For every non-empty URL, when the cached availability flag is false,
  \<^verbatim>\<open>analyze_website\<close> returns a result whose issue list contains
  \<^verbatim>\<open>Lighthouse not available for detailed analysis\<close>, right after the issues of the basic
  probe; the list is not empty. The priority of the result is the priority rule applied
  to that list, so the extra issue counts: three issues of the basic probe already put
  the result above the threshold of three, and the priority is not 3. Where no issue
  contains the marker and the mean of the scores is at least 60, the priority is 2
  exactly when the list, the extra issue included, has more than three issues, whereas on
  the list without the extra issue the calculator returns 2 only from five issues on: on
  a result with four issues the priority is 2, and without the extra issue it would
  be 3.
\<close>

theorem unavailable_issue_recorded:
  assumes "url0 \<noteq> []" and "\<not> lighthouse_available self"
  shows "\<exists>r. analyze_website w self url0 = (Inr r, None)
           \<and> unavailable_issue \<in> set (issues r)
           \<and> issues r \<noteq> []
           \<and> prefix (issues (check_website_basics w (ensure_scheme url0) initial_results)
                       @ [unavailable_issue]) (issues r)
           \<and> priority r = Some (priority_by_rule r)
           \<and> calculate_priority r = Inr (priority_by_rule r)
           \<and> (3 \<le> length (issues (check_website_basics w (ensure_scheme url0)
                                     initial_results)) \<longrightarrow> priority r \<noteq> Some 3)
           \<and> (\<not> list_ex (sublist marker) (issues r)
                \<and> 60 \<le> real_of_int (performance_score r + seo_score r
                                       + accessibility_score r + best_practices_score r) / 4
                \<longrightarrow> priority r = Some (if 3 < length (issues r) then 2 else 3)
                  \<and> calculate_priority (r\<lparr>issues := remove1 unavailable_issue (issues r)\<rparr>)
                      = Inr (if 4 < length (issues r) then 2 else 3))"
proof -
  let ?b = "check_website_basics w (ensure_scheme url0) initial_results"
  let ?a = "perform_basic_analysis w (ensure_scheme url0) (append_issue unavailable_issue ?b)"
  from analyze_website_fallback[OF assms, of w] obtain p where
    p: "calculate_priority ?a = Inr p" and
    ret: "analyze_website w self url0 = (Inr (?a\<lparr>priority := Some p\<rparr>), None)"
    by blast
  let ?r = "?a\<lparr>priority := Some p\<rparr>"
  have pre: "prefix (issues ?b @ [unavailable_issue]) (issues ?r)"
    using perform_basic_analysis_grows[of "append_issue unavailable_issue ?b" w "ensure_scheme url0"]
    by simp
  then obtain ys where ys: "issues ?r = issues ?b @ [unavailable_issue] @ ys"
    by (auto simp: prefix_def)
  have mem: "unavailable_issue \<in> set (issues ?r)" and ne: "issues ?r \<noteq> []"
    using ys by simp_all
  have calc: "calculate_priority ?r = Inr (priority_by_rule ?r)"
    by (rule final_priority(1)[OF ret])
  have prio: "priority ?r = Some (priority_by_rule ?r)"
    by (rule final_priority(2)[OF ret assms(1)])
  have cap: "list_all capitalised (issues ?r)"
    by (rule analyze_website_capitalised[OF ret])
  have three: "priority ?r \<noteq> Some 3" if "3 \<le> length (issues ?b)"
  proof -
    from that ys have "3 < length (issues ?r)" by simp
    then have "priority_by_rule ?r \<noteq> 3" by (simp add: priority_by_rule_def)
    with prio show ?thesis by simp
  qed
  have thr: "priority ?r = Some (if 3 < length (issues ?r) then 2 else 3)
             \<and> calculate_priority (?r\<lparr>issues := remove1 unavailable_issue (issues ?r)\<rparr>)
                 = Inr (if 4 < length (issues ?r) then 2 else 3)"
    if "\<not> list_ex (sublist marker) (issues ?r)
        \<and> 60 \<le> real_of_int (performance_score ?r + seo_score ?r
                               + accessibility_score ?r + best_practices_score ?r) / 4"
  proof -
    from that have nm: "\<not> list_ex (sublist marker) (issues ?r)"
      and mean: "60 \<le> real_of_int (performance_score ?r + seo_score ?r
                               + accessibility_score ?r + best_practices_score ?r) / 4"
      by simp_all
    from priority_without_issue(1)[OF cap calc nm mean mem]
    have "priority_by_rule ?r = (if 3 < length (issues ?r) then 2 else 3)" .
    with prio have "priority ?r = Some (if 3 < length (issues ?r) then 2 else 3)"
      by (simp only:)
    with priority_without_issue(2)[OF cap calc nm mean mem] show ?thesis
      by (rule conjI[rotated])
  qed
  show ?thesis
  proof (intro exI[of _ ?r] conjI impI)
    show "analyze_website w self url0 = (Inr ?r, None)" by (rule ret)
    show "unavailable_issue \<in> set (issues ?r)" by (rule mem)
    show "issues ?r \<noteq> []" by (rule ne)
    show "prefix (issues ?b @ [unavailable_issue]) (issues ?r)" by (rule pre)
    show "priority ?r = Some (priority_by_rule ?r)" by (rule prio)
    show "calculate_priority ?r = Inr (priority_by_rule ?r)" by (rule calc)
    show "priority ?r \<noteq> Some 3" if "3 \<le> length (issues ?b)" using that by (rule three)
    show "priority ?r = Some (if 3 < length (issues ?r) then 2 else 3)"
      if "\<not> list_ex (sublist marker) (issues ?r)
        \<and> 60 \<le> real_of_int (performance_score ?r + seo_score ?r
                               + accessibility_score ?r + best_practices_score ?r) / 4"
      using thr[OF that] by (rule conjunct1)
    show "calculate_priority (?r\<lparr>issues := remove1 unavailable_issue (issues ?r)\<rparr>)
                 = Inr (if 4 < length (issues ?r) then 2 else 3)"
      if "\<not> list_ex (sublist marker) (issues ?r)
        \<and> 60 \<le> real_of_int (performance_score ?r + seo_score ?r
                               + accessibility_score ?r + best_practices_score ?r) / 4"
      using thr[OF that] by (rule conjunct2)
  qed
qed

lemma tidy_issues_unmarked:
  "\<not> list_ex (sublist marker)
       [''Website does not use SSL (https)'',
        ''HTTPS is available but not used by default'',
        ''No mobile viewport meta tag found'',
        ''Lighthouse not available for detailed analysis'']"
  by code_simp

lemma tidy_issues_without:
  "remove1 unavailable_issue
       [''Website does not use SSL (https)'',
        ''HTTPS is available but not used by default'',
        ''No mobile viewport meta tag found'',
        ''Lighthouse not available for detailed analysis'']
     = [''Website does not use SSL (https)'',
        ''HTTPS is available but not used by default'',
        ''No mobile viewport meta tag found'']"
  by code_simp

text \<open>The tidy page served over plain HTTP: three issues of the basic probe, the extra
  issue as the fourth, the mean of the scores exactly 60. The priority is 2; on the same
  result without the extra issue the calculator returns 3.\<close>

theorem unavailable_issue_recorded_witness:
  "''http://example.com'' \<noteq> [] \<and> \<not> lighthouse_available without_lighthouse
   \<and> length (issues (check_website_basics tidy_world (ensure_scheme ''http://example.com'')
                        initial_results)) = 3
   \<and> analyze_website tidy_world without_lighthouse ''http://example.com'' =
       (Inr \<lparr>performance_score = 70, seo_score = 60, accessibility_score = 50,
             best_practices_score = 60, has_ssl = False, has_mobile_viewport = False,
             issues = [''Website does not use SSL (https)'',
                       ''HTTPS is available but not used by default'',
                       ''No mobile viewport meta tag found'',
                       ''Lighthouse not available for detailed analysis''],
             priority = Some 2\<rparr>, None)
   \<and> calculate_priority
        \<lparr>performance_score = 70, seo_score = 60, accessibility_score = 50,
         best_practices_score = 60, has_ssl = False, has_mobile_viewport = False,
         issues = [''Website does not use SSL (https)'',
                   ''HTTPS is available but not used by default'',
                   ''No mobile viewport meta tag found'',
                   ''Lighthouse not available for detailed analysis''],
         priority = Some 2\<rparr> = Inr 2
   \<and> calculate_priority
        \<lparr>performance_score = 70, seo_score = 60, accessibility_score = 50,
         best_practices_score = 60, has_ssl = False, has_mobile_viewport = False,
         issues = [''Website does not use SSL (https)'',
                   ''HTTPS is available but not used by default'',
                   ''No mobile viewport meta tag found''],
         priority = Some 2\<rparr> = Inr 3"
proof -
  let ?r = "\<lparr>performance_score = 70, seo_score = 60, accessibility_score = 50,
             best_practices_score = 60, has_ssl = False, has_mobile_viewport = False,
             issues = [''Website does not use SSL (https)'',
                       ''HTTPS is available but not used by default'',
                       ''No mobile viewport meta tag found'',
                       ''Lighthouse not available for detailed analysis''],
             priority = Some (2 :: int)\<rparr>"
  have a: "''http://example.com'' \<noteq> []" by simp
  have b: "\<not> lighthouse_available without_lighthouse"
    by (simp add: without_lighthouse_def)
  have c: "length (issues (check_website_basics tidy_world
                     (ensure_scheme ''http://example.com'') initial_results)) = 3"
    by (simp add: ensure_scheme_def tidy_basics)
  from unavailable_issue_recorded[OF a b, of tidy_world] obtain r where
    ret: "analyze_website tidy_world without_lighthouse ''http://example.com''
            = (Inr r, None)"
    and calc: "calculate_priority r = Inr (priority_by_rule r)"
    and prio: "priority r = Some (priority_by_rule r)"
    and thr: "\<not> list_ex (sublist marker) (issues r)
              \<and> 60 \<le> real_of_int (performance_score r + seo_score r
                                     + accessibility_score r + best_practices_score r) / 4
              \<longrightarrow> priority r = Some (if 3 < length (issues r) then 2 else 3)
                \<and> calculate_priority (r\<lparr>issues := remove1 unavailable_issue (issues r)\<rparr>)
                    = Inr (if 4 < length (issues r) then 2 else 3)"
    by blast
  from ret tidy_analysis have r: "r = ?r" by simp
  have i: "issues r = [''Website does not use SSL (https)'',
                       ''HTTPS is available but not used by default'',
                       ''No mobile viewport meta tag found'',
                       ''Lighthouse not available for detailed analysis'']"
    by (simp add: r)
  have nm: "\<not> list_ex (sublist marker) (issues r)"
    unfolding i by (rule tidy_issues_unmarked)
  have mean: "60 \<le> real_of_int (performance_score r + seo_score r
                                 + accessibility_score r + best_practices_score r) / 4"
    by (simp add: r)
  from thr nm mean
  have "calculate_priority (r\<lparr>issues := remove1 unavailable_issue (issues r)\<rparr>)
          = Inr (if 4 < length (issues r) then 2 else 3)"
    by blast
  then have three: "calculate_priority
          (r\<lparr>issues := [''Website does not use SSL (https)'',
                          ''HTTPS is available but not used by default'',
                          ''No mobile viewport meta tag found'']\<rparr>) = Inr 3"
    unfolding i tidy_issues_without by simp
  have "priority r = Some 2" by (simp add: r)
  with prio have "priority_by_rule r = 2" by simp
  with calc have two: "calculate_priority r = Inr 2" by simp
  from three have three': "calculate_priority
        \<lparr>performance_score = 70, seo_score = 60, accessibility_score = 50,
         best_practices_score = 60, has_ssl = False, has_mobile_viewport = False,
         issues = [''Website does not use SSL (https)'',
                   ''HTTPS is available but not used by default'',
                   ''No mobile viewport meta tag found''],
         priority = Some 2\<rparr> = Inr 3"
    by (simp add: r)
  from two have two': "calculate_priority ?r = Inr 2"
    by (simp only: r)
  from a b c tidy_analysis two' three' show ?thesis by blast
qed

end
